theory Spec2Isabelle
  imports Complex_Main "HOL-Library.Sublist" "HOL-Library.Multiset"
    "HOL-Library.Char_ord" "HOL-Library.List_Lexorder"
begin

section \<open>Numbers\<close>

text \<open>
  A TypeScript \<open>number\<close> is modelled as a real: the arithmetic of the scoring and
  planning functions is exact here, and NaN and the infinities are outside the model.
  \<open>Math.round\<close> rounds to the nearest integer, a half going up.
\<close>

definition Math_round :: "real \<Rightarrow> int" where
  "Math_round x = \<lfloor>x + 1 / 2\<rfloor>"

section \<open>Financial planner (dashboard analysis page)\<close>

record insurance_plan =
  name :: string
  coverage :: nat
  premium :: nat

text \<open>\<open>calculateMonthlySavings(profile, riskScore)\<close>; the profile is not read.\<close>

definition calculateMonthlySavings :: "'p \<Rightarrow> real \<Rightarrow> int" where
  "calculateMonthlySavings profile riskScore =
     (let baseAmount = 2000;
          riskMultiplier = riskScore / 50
      in Math_round (baseAmount * riskMultiplier))"

definition getInsurancePlan :: "real \<Rightarrow> insurance_plan" where
  "getInsurancePlan riskScore =
     (if riskScore > 70 then
        \<lparr>name = ''Premium Health Shield'', coverage = 1000000, premium = 8500\<rparr>
      else if riskScore > 50 then
        \<lparr>name = ''Comprehensive Care Plus'', coverage = 500000, premium = 5500\<rparr>
      else
        \<lparr>name = ''Essential Health Cover'', coverage = 300000, premium = 3500\<rparr>)"

section \<open>Risk scoring engine (risk-calculator)\<close>

datatype risk_level = Low | Medium | High | Critical

fun level_str :: "risk_level \<Rightarrow> string" where
  "level_str Low = ''low''"
| "level_str Medium = ''medium''"
| "level_str High = ''high''"
| "level_str Critical = ''critical''"

text \<open>
  The fields of \<open>RiskCalculationInput\<close> that the calculator reads. Every field name
  carries a prefix for its object: \<open>up\<close> userProfile, \<open>env\<close> environmentalData,
  \<open>st\<close> statisticalData, \<open>oh\<close> occupationHazard, \<open>cs\<close> cityStats. An optional
  field (\<open>?:\<close>) is an option.
\<close>

record user_profile =
  up_occupation :: string
  up_city :: string
  up_workShift :: string
  up_healthCondition :: string
  up_addictions :: string
  up_pastSurgery :: string
  up_age :: real

record climate_sources =
  src_weather :: string
  src_aqi :: string

record environmental =
  env_city :: string
  env_aqi :: real
  env_temperature :: real
  env_humidity :: real
  env_climateRisk :: string
  env_weatherCondition :: "string option"
  env_seasonalRisks :: "string list option"
  env_timestamp :: string
  env_source :: climate_sources

record statistical =
  st_deathRate :: real
  st_crimeRate :: real
  st_occupationHazardLevel :: risk_level
  st_occupationDeathRate :: real
  st_cityHealthIndex :: real
  st_ageAdjustedDeathRate :: "real option"
  st_violentCrimeRate :: "real option"
  st_safetyIndex :: "real option"

record occupation_hazard =
  oh_hazardLevel :: risk_level
  oh_deathRate :: real
  oh_riskScore :: real
  oh_preventiveMeasures :: "string list"

record city_stats =
  cs_crimeRate :: real

record RiskCalculationInput =
  userProfile :: user_profile
  environmentalData :: environmental
  statisticalData :: statistical
  occupationHazard :: occupation_hazard
  cityStats :: city_stats

record RiskFactor =
  category :: string
  level :: risk_level
  description :: string
  impact :: real

text \<open>\<open>if (x)\<close> on an optional number: present, and not zero.\<close>

fun truthy :: "real option \<Rightarrow> bool" where
  "truthy None = False"
| "truthy (Some x) = (x \<noteq> 0)"

text \<open>\<open>xs && xs.length > 0\<close> on an optional array.\<close>

fun nonempty :: "'a list option \<Rightarrow> bool" where
  "nonempty None = False"
| "nonempty (Some xs) = (length xs > 0)"

text \<open>
  The contributions of \<open>calculateRiskScore\<close>, in the order of the source.
  \<open>calculateCrimeStressImpact\<close> lives in the crime-statistics module, which is not
  part of the sources at hand: it is a parameter \<open>csi\<close> of every function that calls it.
\<close>

definition agePoints :: "real \<Rightarrow> real" where
  "agePoints age =
     (if age > 60 then 20 else if age > 50 then 15
      else if age > 40 then 10 else if age > 30 then 5 else 0)"

definition ageDeathRateImpact :: "real option \<Rightarrow> real" where
  "ageDeathRateImpact r =
     (if truthy r then min ((the r / 20) * 5) 5 else 0)"

definition aqiPoints :: "real \<Rightarrow> real" where
  "aqiPoints aqi =
     (if aqi > 200 then 25 else if aqi > 150 then 20
      else if aqi > 100 then 15 else if aqi > 50 then 10 else 5)"

definition seasonalPoints :: "string list option \<Rightarrow> real" where
  "seasonalPoints rs =
     (if nonempty rs then min (real (length (the rs)) * 2) 5 else 0)"

definition occupationPoints :: "real \<Rightarrow> real" where
  "occupationPoints occupationRisk = of_int (Math_round (occupationRisk * 0.2))"

definition presentPoints :: "string \<Rightarrow> real \<Rightarrow> real" where
  "presentPoints s pts = (if s \<noteq> ''None'' \<and> s \<noteq> [] then pts else 0)"

definition shiftPoints :: "string \<Rightarrow> real" where
  "shiftPoints workShift =
     (if workShift = ''Night Shift'' then 5
      else if workShift = ''Rotating Shift'' then 3 else 0)"

definition violentCrimePoints :: "real option \<Rightarrow> real" where
  "violentCrimePoints v =
     (if truthy v \<and> the v > 30 then min (the v / 10) 5 else 0)"

definition safetyPoints :: "real option \<Rightarrow> real" where
  "safetyPoints si =
     (if truthy si \<and> the si < 60 then 5
      else if truthy si \<and> the si < 70 then 3 else 0)"

definition rawScore :: "(real \<Rightarrow> real) \<Rightarrow> RiskCalculationInput \<Rightarrow> real" where
  "rawScore csi inp =
     0 + 10
     + agePoints (up_age (userProfile inp))
     + ageDeathRateImpact (st_ageAdjustedDeathRate (statisticalData inp))
     + aqiPoints (env_aqi (environmentalData inp))
     + seasonalPoints (env_seasonalRisks (environmentalData inp))
     + occupationPoints (oh_riskScore (occupationHazard inp))
     + presentPoints (up_healthCondition (userProfile inp)) 15
     + presentPoints (up_addictions (userProfile inp)) 10
     + presentPoints (up_pastSurgery (userProfile inp)) 5
     + shiftPoints (up_workShift (userProfile inp))
     + min (csi (cs_crimeRate (cityStats inp))) 10
     + violentCrimePoints (st_violentCrimeRate (statisticalData inp))
     + safetyPoints (st_safetyIndex (statisticalData inp))"

definition calculateRiskScore :: "(real \<Rightarrow> real) \<Rightarrow> RiskCalculationInput \<Rightarrow> int" where
  "calculateRiskScore csi inp = min (Math_round (rawScore csi inp)) 100"

definition getRiskLevel :: "real \<Rightarrow> risk_level" where
  "getRiskLevel score =
     (if score \<ge> 80 then Critical
      else if score \<ge> 60 then High
      else if score \<ge> 40 then Medium
      else Low)"

text \<open>
  Valid inputs: the numeric fields are not negative, and neither is
  the crime-stress impact of the city's crime rate.
\<close>

fun nonneg_opt :: "real option \<Rightarrow> bool" where
  "nonneg_opt None = True"
| "nonneg_opt (Some x) = (0 \<le> x)"

definition valid_input :: "(real \<Rightarrow> real) \<Rightarrow> RiskCalculationInput \<Rightarrow> bool" where
  "valid_input csi inp \<longleftrightarrow>
     0 \<le> up_age (userProfile inp) \<and>
     0 \<le> env_aqi (environmentalData inp) \<and>
     0 \<le> oh_riskScore (occupationHazard inp) \<and>
     0 \<le> cs_crimeRate (cityStats inp) \<and>
     nonneg_opt (st_ageAdjustedDeathRate (statisticalData inp)) \<and>
     nonneg_opt (st_violentCrimeRate (statisticalData inp)) \<and>
     nonneg_opt (st_safetyIndex (statisticalData inp)) \<and>
     0 \<le> csi (cs_crimeRate (cityStats inp))"

subsection \<open>Risk factors\<close>

text \<open>\<open>Array.prototype.join\<close>.\<close>

fun join :: "string \<Rightarrow> string list \<Rightarrow> string" where
  "join sep [] = []"
| "join sep [x] = x"
| "join sep (x # y # ys) = x @ sep @ join sep (y # ys)"

text \<open>
  \<open>Array.prototype.sort(compareFn)\<close>: a stable sort (ECMAScript 2019), so for a
  comparator that is a consistent ordering the result is fixed whatever algorithm the
  engine runs. The model inserts each element, last one first, in front of the first
  element it does not have to follow (\<open>compareFn(x, y) \<le> 0\<close>).
\<close>

fun sort_insert :: "('a \<Rightarrow> 'a \<Rightarrow> real) \<Rightarrow> 'a \<Rightarrow> 'a list \<Rightarrow> 'a list" where
  "sort_insert compareFn x [] = [x]"
| "sort_insert compareFn x (y # ys) =
     (if compareFn x y \<le> 0 then x # y # ys else y # sort_insert compareFn x ys)"

definition Array_sort :: "('a \<Rightarrow> 'a \<Rightarrow> real) \<Rightarrow> 'a list \<Rightarrow> 'a list" where
  "Array_sort compareFn xs = foldr (sort_insert compareFn) xs []"

text \<open>
  The array \<open>factors\<close> of \<open>generateRiskFactors\<close> as it stands before the final sort:
  one block per \<open>if\<close> of the source, each pushing one factor or none. A template
  literal prints a number through \<open>str\<close> (JavaScript's number-to-string conversion) and
  \<open>toFixed1\<close> (\<open>toFixed(1)\<close>), both parameters.
\<close>

definition pushedFactors ::
  "(real \<Rightarrow> real) \<Rightarrow> (real \<Rightarrow> string) \<Rightarrow> (real \<Rightarrow> string) \<Rightarrow> RiskCalculationInput
     \<Rightarrow> RiskFactor list" where
  "pushedFactors csi str toFixed1 inp =
     (let aqi = env_aqi (environmentalData inp);
          weatherCondition =
            (case env_weatherCondition (environmentalData inp) of None \<Rightarrow> [] | Some w \<Rightarrow> w);
          current =
            (if weatherCondition \<noteq> [] then '' (Current: '' @ weatherCondition @ '')'' else []);
          airQuality =
            (if aqi > 150 then
               [\<lparr>category = ''Air Quality'',
                 level = (if aqi > 200 then Critical else High),
                 description = ''AQI of '' @ str aqi
                   @ '' poses significant respiratory health risks'' @ current,
                 impact = (if aqi > 200 then 25 else 20)\<rparr>]
             else if aqi > 100 then
               [\<lparr>category = ''Air Quality'', level = Medium,
                 description = ''AQI of '' @ str aqi
                   @ '' may affect sensitive individuals'' @ current,
                 impact = 15\<rparr>]
             else []);
          seasonalRisks = env_seasonalRisks (environmentalData inp);
          seasonal =
            (if nonempty seasonalRisks then
               [\<lparr>category = ''Seasonal Health Risks'',
                 level = (if length (the seasonalRisks) > 2 then High else Medium),
                 description = join ''; '' (the seasonalRisks),
                 impact = real (length (the seasonalRisks)) * 2\<rparr>]
             else []);
          hazard = occupationHazard inp;
          occupational =
            (if oh_hazardLevel hazard = Critical \<or> oh_hazardLevel hazard = High then
               [\<lparr>category = ''Occupational Hazard'',
                 level = oh_hazardLevel hazard,
                 description = up_occupation (userProfile inp) @ '' has ''
                   @ level_str (oh_hazardLevel hazard) @ '' risk level with death rate of ''
                   @ str (oh_deathRate hazard) @ '' per 100,000 workers'',
                 impact = oh_riskScore hazard * 0.2\<rparr>]
             else []);
          age = up_age (userProfile inp);
          ageFactor =
            (if age > 50 then
               [\<lparr>category = ''Age Factor'',
                 level = (if age > 60 then High else Medium),
                 description = ''Age '' @ str age
                   @ '' increases susceptibility to health conditions'',
                 impact = (if age > 60 then 20 else 15)\<rparr>]
             else []);
          healthCondition = up_healthCondition (userProfile inp);
          preexisting =
            (if healthCondition \<noteq> ''None'' \<and> healthCondition \<noteq> [] then
               [\<lparr>category = ''Pre-existing Condition'', level = High,
                 description = ''Existing health condition: '' @ healthCondition,
                 impact = 15\<rparr>]
             else []);
          addictions = up_addictions (userProfile inp);
          lifestyle =
            (if addictions \<noteq> ''None'' \<and> addictions \<noteq> [] then
               [\<lparr>category = ''Lifestyle Risk'', level = Medium,
                 description = ''Addiction to '' @ addictions @ '' increases health risks'',
                 impact = 10\<rparr>]
             else []);
          schedule =
            (if up_workShift (userProfile inp) = ''Night Shift'' then
               [\<lparr>category = ''Work Schedule'', level = Medium,
                 description =
                   ''Night shift work disrupts circadian rhythm and increases health risks'',
                 impact = 5\<rparr>]
             else []);
          crimeRate = cs_crimeRate (cityStats inp);
          violent = st_violentCrimeRate (statisticalData inp);
          violentCrimeInfo =
            (if truthy violent then
               '' including '' @ toFixed1 (the violent) @ '' violent crimes per 100k''
             else []);
          stress =
            (if crimeRate > 500 then
               [\<lparr>category = ''Environmental Stress'',
                 level = (if crimeRate > 1000 then High else Medium),
                 description = ''High crime rate ('' @ str crimeRate @ '' per 100k''
                   @ violentCrimeInfo @ '') contributes to chronic stress'',
                 impact = csi crimeRate\<rparr>]
             else []);
          safetyIndex = st_safetyIndex (statisticalData inp);
          safety =
            (if truthy safetyIndex \<and> the safetyIndex < 60 then
               [\<lparr>category = ''City Safety'',
                 level = (if the safetyIndex < 50 then High else Medium),
                 description = ''Low safety index ('' @ str (the safetyIndex)
                   @ ''/100) indicates higher security concerns'',
                 impact = 5\<rparr>]
             else []);
          cityHealthIndex = st_cityHealthIndex (statisticalData inp);
          infrastructure =
            (if cityHealthIndex < 60 then
               [\<lparr>category = ''City Health Infrastructure'',
                 level = (if cityHealthIndex < 40 then High else Medium),
                 description = ''City health index of '' @ str cityHealthIndex
                   @ ''/100 indicates limited healthcare access'',
                 impact = 10\<rparr>]
             else [])
      in airQuality @ seasonal @ occupational @ ageFactor @ preexisting @ lifestyle
           @ schedule @ stress @ safety @ infrastructure)"

definition generateRiskFactors ::
  "(real \<Rightarrow> real) \<Rightarrow> (real \<Rightarrow> string) \<Rightarrow> (real \<Rightarrow> string) \<Rightarrow> RiskCalculationInput
     \<Rightarrow> RiskFactor list" where
  "generateRiskFactors csi str toFixed1 inp =
     Array_sort (\<lambda>a b. impact b - impact a) (pushedFactors csi str toFixed1 inp)"

subsection \<open>The two example profiles of the specification\<close>

definition delhi_input :: RiskCalculationInput where
  "delhi_input = \<lparr>
     userProfile = \<lparr>up_occupation = ''Factory Worker'', up_city = ''Delhi'',
       up_workShift = ''Night Shift'', up_healthCondition = ''Diabetes'',
       up_addictions = ''None'', up_pastSurgery = ''None'', up_age = 65\<rparr>,
     environmentalData = \<lparr>env_city = ''Delhi'', env_aqi = 220, env_temperature = 30,
       env_humidity = 65, env_climateRisk = ''Critical'',
       env_weatherCondition = Some ''Clear'',
       env_seasonalRisks = Some [''Poor air quality - respiratory risks''],
       env_timestamp = [],
       env_source = \<lparr>src_weather = ''Open-Meteo (Real-time)'',
         src_aqi = ''AQICN (Real-time)''\<rparr>\<rparr>,
     statisticalData = \<lparr>st_deathRate = 7.3, st_crimeRate = 1586.1,
       st_occupationHazardLevel = High, st_occupationDeathRate = 12.3,
       st_cityHealthIndex = 20, st_ageAdjustedDeathRate = Some 18.3,
       st_violentCrimeRate = Some 45.2, st_safetyIndex = Some 45\<rparr>,
     occupationHazard = \<lparr>oh_hazardLevel = High, oh_deathRate = 12.3, oh_riskScore = 75,
       oh_preventiveMeasures = []\<rparr>,
     cityStats = \<lparr>cs_crimeRate = 1586.1\<rparr>\<rparr>"

definition bangalore_input :: RiskCalculationInput where
  "bangalore_input = \<lparr>
     userProfile = \<lparr>up_occupation = ''Student'', up_city = ''Bangalore'',
       up_workShift = ''Day Shift'', up_healthCondition = ''None'',
       up_addictions = ''None'', up_pastSurgery = ''None'', up_age = 22\<rparr>,
     environmentalData = \<lparr>env_city = ''Bangalore'', env_aqi = 95, env_temperature = 27,
       env_humidity = 60, env_climateRisk = ''Low'',
       env_weatherCondition = Some ''Clear'', env_seasonalRisks = Some [],
       env_timestamp = [],
       env_source = \<lparr>src_weather = ''Open-Meteo (Real-time)'',
         src_aqi = ''AQICN (Real-time)''\<rparr>\<rparr>,
     statisticalData = \<lparr>st_deathRate = 7.3, st_crimeRate = 455.8,
       st_occupationHazardLevel = Low, st_occupationDeathRate = 1.5,
       st_cityHealthIndex = 80, st_ageAdjustedDeathRate = Some 4.3,
       st_violentCrimeRate = Some 18.7, st_safetyIndex = Some 70\<rparr>,
     occupationHazard = \<lparr>oh_hazardLevel = Low, oh_deathRate = 1.5, oh_riskScore = 10,
       oh_preventiveMeasures = []\<rparr>,
     cityStats = \<lparr>cs_crimeRate = 455.8\<rparr>\<rparr>"

text \<open>A stand-in for the crime-stress lookup where an example needs one.\<close>

definition sample_csi :: "real \<Rightarrow> real" where
  "sample_csi crimeRate = min (crimeRate / 200) 10"

section \<open>Thrown values\<close>

text \<open>
  A thrown value: an \<open>APIError\<close> with its \<open>statusCode\<close> (absent when
  \<open>undefined\<close>) and its \<open>originalError\<close>, or any other error. Messages and the API
  name are not modelled.
\<close>

datatype js_error = APIError "nat option" "js_error option" | OtherError

section \<open>Cache service\<close>

text \<open>
  \<open>CacheService\<close> holds a \<open>Map\<close> from keys to entries; \<open>Date.now()\<close> is an argument
  of every operation that reads the clock (milliseconds), the time to live is in seconds.
  A stored value is never \<open>null\<close>: the \<open>null\<close> that \<open>get\<close> returns is \<open>None\<close>.
\<close>

record 'a CacheEntry =
  ce_data :: 'a
  ce_timestamp :: int
  ce_ttl :: int

type_synonym 'a cache = "string \<rightharpoonup> 'a CacheEntry"

definition cache_get :: "int \<Rightarrow> string \<Rightarrow> 'a cache \<Rightarrow> 'a option \<times> 'a cache" where
  "cache_get now key cache =
     (case cache key of
        None \<Rightarrow> (None, cache)
      | Some entry \<Rightarrow>
          (let age = now - ce_timestamp entry
           in if age > ce_ttl entry * 1000 then (None, cache(key := None))
              else (Some (ce_data entry), cache)))"

definition cache_set :: "int \<Rightarrow> string \<Rightarrow> 'a \<Rightarrow> int \<Rightarrow> 'a cache \<Rightarrow> 'a cache" where
  "cache_set now key d ttl cache =
     cache(key \<mapsto> \<lparr>ce_data = d, ce_timestamp = now, ce_ttl = ttl\<rparr>)"

text \<open>
  \<open>withCache(cacheKey, ttl, fetchFn)\<close>. The producer \<open>fetchFn\<close> is given by what its
  promise settles to, \<open>Inl\<close> a rejection; \<open>now\<close> is the clock at the lookup and
  \<open>later\<close> the clock when the producer has resolved.
\<close>

definition withCache ::
  "int \<Rightarrow> int \<Rightarrow> string \<Rightarrow> int \<Rightarrow> (js_error + 'a) \<Rightarrow> 'a cache
     \<Rightarrow> (js_error + 'a) \<times> 'a cache" where
  "withCache now later cacheKey ttl fetchFn cache =
     (case cache_get now cacheKey cache of
        (Some cached, cache1) \<Rightarrow> (Inr cached, cache1)
      | (None, cache1) \<Rightarrow>
          (case fetchFn of
             Inr d \<Rightarrow> (Inr d, cache_set later cacheKey d ttl cache1)
           | Inl e \<Rightarrow> (Inl e, cache1)))"

section \<open>The retrying fetch (api-helpers)\<close>

record APIConfig =
  baseUrl :: string
  timeout :: nat
  retryAttempts :: nat
  retryDelay :: nat
  cacheTTL :: nat
  requiresAuth :: bool

text \<open>
  What one call of \<open>fetchWithTimeout\<close> meets: a response with its HTTP status and its
  body read as JSON (\<open>None\<close> when the body is not JSON), an abort by the timeout, or
  another failure of \<open>fetch\<close>.
\<close>

datatype 'a attempt = Responded nat "'a option" | Aborted | NetworkError

text \<open>The body of the \<open>try\<close> block: \<open>Inl\<close> is the value it throws.\<close>

fun tryAttempt :: "'a attempt \<Rightarrow> js_error + 'a" where
  "tryAttempt Aborted = Inl (APIError (Some 408) (Some OtherError))"
| "tryAttempt NetworkError = Inl OtherError"
| "tryAttempt (Responded status body) =
     (if \<not> (200 \<le> status \<and> status \<le> 299) then Inl (APIError (Some status) None)
      else case body of None \<Rightarrow> Inl OtherError | Some d \<Rightarrow> Inr d)"

text \<open>The errors the \<open>catch\<close> block throws again at once.\<close>

fun noRetry :: "js_error \<Rightarrow> bool" where
  "noRetry (APIError (Some statusCode) _) =
     (statusCode \<noteq> 0 \<and> statusCode \<ge> 400 \<and> statusCode < 500 \<and> statusCode \<noteq> 429)"
| "noRetry _ = False"

text \<open>
  The run is observed through a log: the attempts made, by number, and the delays slept,
  in milliseconds.
\<close>

datatype event = Attempt nat | Sleep nat

function fetchWithRetry_from ::
  "APIConfig \<Rightarrow> (nat \<Rightarrow> 'a attempt) \<Rightarrow> nat \<Rightarrow> js_error option
     \<Rightarrow> (js_error + 'a) \<times> event list" where
  "fetchWithRetry_from config net attempt lastError =
     (if attempt \<le> retryAttempts config then
        (case tryAttempt (net attempt) of
           Inr d \<Rightarrow> (Inr d, [Attempt attempt])
         | Inl error \<Rightarrow>
             if noRetry error then (Inl error, [Attempt attempt])
             else if attempt < retryAttempts config then
               apsnd (\<lambda>log. Attempt attempt # Sleep (retryDelay config * 2 ^ attempt) # log)
                 (fetchWithRetry_from config net (attempt + 1) (Some error))
             else
               apsnd (\<lambda>log. Attempt attempt # log)
                 (fetchWithRetry_from config net (attempt + 1) (Some error)))
      else (Inl (APIError None lastError), []))"
  by pat_completeness auto
termination
  by (relation "measure (\<lambda>(config, net, attempt, lastError). retryAttempts config + 1 - attempt)")
    auto

declare fetchWithRetry_from.simps [simp del]

definition fetchWithRetry ::
  "APIConfig \<Rightarrow> (nat \<Rightarrow> 'a attempt) \<Rightarrow> (js_error + 'a) \<times> event list" where
  "fetchWithRetry config net = fetchWithRetry_from config net 0 None"

text \<open>
  For the statement of the retry discipline. An attempt is \<open>retryable\<close> when it fails
  with an error that the \<open>catch\<close> block does not throw again. Counting from attempt
  \<open>a\<close>, \<open>lastAttempt_from\<close> is the first attempt below \<open>retryAttempts\<close> that is
  not retryable, and \<open>retryAttempts\<close> when there is none. \<open>backoffLog_from a m\<close> is
  the log of a run whose attempts \<open>a\<close> to \<open>m - 1\<close> were each followed by their
  delay and whose last attempt was \<open>m\<close>. \<open>finalOutcome\<close> is what the run returns
  after its last attempt: the attempt's own result, or the error of exhaustion that wraps
  the last error when that attempt was retryable.
\<close>

definition retryable :: "'a attempt \<Rightarrow> bool" where
  "retryable a = (case tryAttempt a of Inl e \<Rightarrow> \<not> noRetry e | Inr d \<Rightarrow> False)"

definition lastAttempt_from :: "APIConfig \<Rightarrow> (nat \<Rightarrow> 'a attempt) \<Rightarrow> nat \<Rightarrow> nat" where
  "lastAttempt_from config net a =
     (case find (\<lambda>k. \<not> retryable (net k)) [a..<retryAttempts config] of
        Some k \<Rightarrow> k
      | None \<Rightarrow> retryAttempts config)"

definition lastAttempt :: "APIConfig \<Rightarrow> (nat \<Rightarrow> 'a attempt) \<Rightarrow> nat" where
  "lastAttempt config net = lastAttempt_from config net 0"

definition backoffLog_from :: "APIConfig \<Rightarrow> nat \<Rightarrow> nat \<Rightarrow> event list" where
  "backoffLog_from config a m =
     concat (map (\<lambda>k. [Attempt k, Sleep (retryDelay config * 2 ^ k)]) [a..<m]) @ [Attempt m]"

definition backoffLog :: "APIConfig \<Rightarrow> nat \<Rightarrow> event list" where
  "backoffLog config m = backoffLog_from config 0 m"

definition finalOutcome :: "'a attempt \<Rightarrow> js_error + 'a" where
  "finalOutcome a =
     (case tryAttempt a of
        Inl e \<Rightarrow> if noRetry e then Inl e else Inl (APIError None (Some e))
      | Inr d \<Rightarrow> Inr d)"

text \<open>The configuration of the news source, and a source that answers 503, 429, 404.\<close>

definition newsApi_config :: APIConfig where
  "newsApi_config = \<lparr>baseUrl = ''https://newsapi.org/v2'', timeout = 10000,
     retryAttempts = 2, retryDelay = 1000, cacheTTL = 7200, requiresAuth = True\<rparr>"

definition failing_net :: "nat \<Rightarrow> unit attempt" where
  "failing_net k =
     (if k = 0 then Responded 503 None else if k = 1 then Responded 429 None
      else Responded 404 None)"

text \<open>A cache whose only entry, stored at time 0 to live one second, has expired by 2000.\<close>

definition expired_cache :: "nat cache" where
  "expired_cache = [''k'' \<mapsto> \<lparr>ce_data = 7, ce_timestamp = 0, ce_ttl = 1\<rparr>]"

section \<open>Data collector: the city health index\<close>

definition calculateCityHealthIndex :: "real \<Rightarrow> real \<Rightarrow> real \<Rightarrow> real" where
  "calculateCityHealthIndex aqi crimeRate temperature =
     (let index = 100;
          index = (if aqi > 200 then index - 50
                   else if aqi > 150 then index - 35
                   else if aqi > 100 then index - 20
                   else if aqi > 50 then index - 10
                   else index);
          index = (if crimeRate > 1000 then index - 30
                   else if crimeRate > 500 then index - 20
                   else if crimeRate > 300 then index - 10
                   else if crimeRate > 150 then index - 5
                   else index);
          index = (if temperature > 40 \<or> temperature < 10 then index - 20
                   else if temperature > 35 \<or> temperature < 15 then index - 10
                   else index)
      in max index 0)"

text \<open>The three deductions, named for the proofs.\<close>

definition aqiDeduction :: "real \<Rightarrow> real" where
  "aqiDeduction aqi = (if aqi > 200 then 50 else if aqi > 150 then 35
     else if aqi > 100 then 20 else if aqi > 50 then 10 else 0)"

definition crimeDeduction :: "real \<Rightarrow> real" where
  "crimeDeduction c = (if c > 1000 then 30 else if c > 500 then 20
     else if c > 300 then 10 else if c > 150 then 5 else 0)"

definition temperatureDeduction :: "real \<Rightarrow> real" where
  "temperatureDeduction t = (if t > 40 \<or> t < 10 then 20 else if t > 35 \<or> t < 15 then 10 else 0)"

section \<open>API configuration (api-config)\<close>

definition openMeteo_config :: APIConfig where
  "openMeteo_config = \<lparr>baseUrl = ''https://api.open-meteo.com/v1'', timeout = 10000,
     retryAttempts = 3, retryDelay = 1000, cacheTTL = 3600, requiresAuth = False\<rparr>"

definition openWeatherMap_config :: APIConfig where
  "openWeatherMap_config = \<lparr>baseUrl = ''https://api.openweathermap.org/data/2.5'',
     timeout = 10000, retryAttempts = 3, retryDelay = 1000, cacheTTL = 3600,
     requiresAuth = True\<rparr>"

definition aqicn_config :: APIConfig where
  "aqicn_config = \<lparr>baseUrl = ''https://api.waqi.info'', timeout = 10000,
     retryAttempts = 3, retryDelay = 1000, cacheTTL = 3600, requiresAuth = True\<rparr>"

definition worldBank_config :: APIConfig where
  "worldBank_config = \<lparr>baseUrl = ''https://api.worldbank.org/v2'', timeout = 15000,
     retryAttempts = 3, retryDelay = 1000, cacheTTL = 86400, requiresAuth = False\<rparr>"

text \<open>\<open>isAPIKeyConfigured\<close>, on the value of the key's environment variable.\<close>

definition isAPIKeyConfigured :: "string \<Rightarrow> bool" where
  "isAPIKeyConfigured key = (key \<noteq> [] \<and> length key > 0)"

section \<open>Real-time data fetcher\<close>

subsection \<open>Response types\<close>

datatype confidence = ConfHigh | ConfMedium | ConfLow

record ClimateData =
  cl_city :: string
  cl_temperature :: real
  cl_humidity :: real
  cl_aqi :: real
  cl_weatherCondition :: string
  cl_climateRisk :: string
  cl_seasonalRisks :: "string list"
  cl_timestamp :: string
  cl_sources :: climate_sources

record DeathRateData =
  dr_country :: string
  dr_city :: string
  dr_overallDeathRate :: real
  dr_ageAdjustedRate :: real
  dr_year :: nat
  dr_source :: string
  dr_confidence :: confidence

record OccupationDeathRateData =
  od_occupation :: string
  od_deathRate :: real
  od_injuryRate :: real
  od_fatalityRate :: real
  od_year :: nat
  od_source :: string
  od_confidence :: confidence

record CrimeData =
  cr_city :: string
  cr_crimeRate :: real
  cr_violentCrimeRate :: real
  cr_propertyCrimeRate :: real
  cr_safetyIndex :: real
  cr_year :: nat
  cr_source :: string
  cr_trend :: string

record HealthAlert =
  ha_title :: string
  ha_description :: string
  ha_severity :: risk_level
  ha_category :: string
  ha_location :: string
  ha_date :: string
  ha_source :: string
  ha_url :: "string option"

datatype quality = Excellent | Good | Fair | Poor

record DataQuality =
  dq_overall :: quality
  dq_sources :: nat
  dq_realTimeDataPercentage :: int

text \<open>\<open>RealTimeData\<close>; its \<open>diseasePrevalence\<close> is always the empty array and is left out.\<close>

record RealTimeData =
  rt_climate :: ClimateData
  rt_deathRate :: DeathRateData
  rt_occupationDeathRate :: OccupationDeathRateData
  rt_crime :: CrimeData
  rt_healthAlerts :: "HealthAlert list"
  rt_timestamp :: string
  rt_dataQuality :: DataQuality

subsection \<open>The outside world\<close>

text \<open>
  What the upstream services answer, as far as the fetchers read it. Open-Meteo:
  \<open>current.temperature_2m\<close> and \<open>current.relative_humidity_2m\<close>. AQICN: \<open>status\<close>
  and \<open>data?.aqi\<close>. OpenWeatherMap: the \<open>main\<close> of each element of \<open>weather\<close>. World
  Bank: the \<open>value\<close> of each element of \<open>response[1].data\<close>, \<open>None\<close> when the
  response has no such array. NewsAPI: the articles.
\<close>

record om_response =
  om_temperature_2m :: real
  om_relative_humidity_2m :: real

record aqicn_response =
  aq_status :: string
  aq_aqi :: "real option"

type_synonym owm_response = "string list"

type_synonym wb_response = "real option list option"

record article =
  ar_title :: string
  ar_description :: "string option"
  ar_publishedAt :: string
  ar_sourceName :: string
  ar_url :: string

record env_api_response =
  ea_city :: string
  ea_aqi :: real
  ea_temperature :: real
  ea_humidity :: real
  ea_timestamp :: string
  ea_source :: climate_sources

text \<open>
  One run of the pipeline sees: for every upstream service the outcome of each attempt
  of a \<open>fetchWithRetry\<close> on it, the API keys of the environment, what the
  application's own \<open>/api/environment\<close> route answers to \<open>axios.get\<close>, and the clock,
  read once (\<open>Date.now()\<close> and \<open>new Date().toISOString()\<close>).
\<close>

record world =
  w_openMeteo :: "nat \<Rightarrow> om_response attempt"
  w_aqicnKey :: string
  w_aqicn :: "nat \<Rightarrow> aqicn_response attempt"
  w_openWeatherMapKey :: string
  w_openWeatherMap :: "nat \<Rightarrow> owm_response attempt"
  w_worldBank :: "nat \<Rightarrow> wb_response attempt"
  w_newsApiKey :: string
  w_newsApi :: "nat \<Rightarrow> article list attempt"
  w_environmentApi :: "js_error + env_api_response"
  w_now :: int
  w_isoTime :: string

subsection \<open>Cache keys and strings\<close>

text \<open>
  \<open>generateCacheKey(prefix, params)\<close>: the parameters, already printed, sorted by
  name.
\<close>

definition generateCacheKey :: "string \<Rightarrow> (string \<times> string) list \<Rightarrow> string" where
  "generateCacheKey pfx params =
     pfx @ '':'' @ join ''|'' (map (\<lambda>(k, v). k @ '':'' @ v) (sort_key fst params))"

text \<open>\<open>String.prototype.includes\<close> and, on ASCII letters, \<open>toLowerCase\<close>.\<close>

fun str_includes :: "string \<Rightarrow> string \<Rightarrow> bool" where
  "str_includes [] sub = (sub = [])"
| "str_includes (c # cs) sub = (prefix sub (c # cs) \<or> str_includes cs sub)"

definition toLowerCase :: "string \<Rightarrow> string" where
  "toLowerCase s =
     map (\<lambda>c. if CHR ''A'' \<le> c \<and> c \<le> CHR ''Z'' then char_of (of_char c + (32::nat)) else c) s"

subsection \<open>Climate\<close>

definition CITY_COORDINATES :: "string \<rightharpoonup> real \<times> real \<times> string" where
  "CITY_COORDINATES = map_of [
     (''Mumbai'', (19.076, 72.8777, ''IN'')), (''Delhi'', (28.7041, 77.1025, ''IN'')),
     (''Bangalore'', (12.9716, 77.5946, ''IN'')), (''Hyderabad'', (17.385, 78.4867, ''IN'')),
     (''Chennai'', (13.0827, 80.2707, ''IN'')), (''Kolkata'', (22.5726, 88.3639, ''IN'')),
     (''Pune'', (18.5204, 73.8567, ''IN'')), (''Ahmedabad'', (23.0225, 72.5714, ''IN'')),
     (''Jaipur'', (26.9124, 75.7873, ''IN'')), (''Lucknow'', (26.8467, 80.9462, ''IN''))]"

text \<open>
  The producer that \<open>fetchClimateData\<close> hands to \<open>withCache\<close>. An unknown city throws;
  a failed Open-Meteo fetch throws; the AQICN and OpenWeatherMap fetches sit in
  \<open>try\<close> blocks of their own and leave the defaults when they fail.
\<close>

definition climateProducer :: "world \<Rightarrow> string \<Rightarrow> js_error + ClimateData" where
  "climateProducer w city =
     (case CITY_COORDINATES city of
        None \<Rightarrow> Inl OtherError
      | Some coords \<Rightarrow>
          (case fst (fetchWithRetry openMeteo_config (w_openMeteo w)) of
             Inl error \<Rightarrow> Inl error
           | Inr weatherData \<Rightarrow>
               (let (aqi, aqiSource) =
                      (if isAPIKeyConfigured (w_aqicnKey w) then
                         (case fst (fetchWithRetry aqicn_config (w_aqicn w)) of
                            Inr aqiData \<Rightarrow>
                              (if aq_status aqiData = ''ok''
                                  \<and> (case aq_aqi aqiData of Some a \<Rightarrow> a > 0 | None \<Rightarrow> False)
                               then (the (aq_aqi aqiData), ''AQICN (Real-time)'')
                               else (150, ''Estimated''))
                          | Inl error \<Rightarrow> (150, ''Estimated''))
                       else (150, ''Estimated''));
                    weatherCondition =
                      (if isAPIKeyConfigured (w_openWeatherMapKey w) then
                         (case fst (fetchWithRetry openWeatherMap_config (w_openWeatherMap w)) of
                            Inr owmData \<Rightarrow>
                              (case owmData of
                                 [] \<Rightarrow> ''Clear''
                               | m # rest \<Rightarrow> if m = [] then ''Clear'' else m)
                          | Inl error \<Rightarrow> ''Clear'')
                       else ''Clear'');
                    climateRisk =
                      (if aqi > 200 then ''Critical'' else if aqi > 150 then ''High''
                       else if aqi > 100 then ''Moderate'' else ''Low'');
                    temp = of_int (Math_round (om_temperature_2m weatherData));
                    seasonalRisks =
                      (if temp > 40 then [''Extreme heat warning'']
                       else if temp > 35 then [''Heat stress risk''] else [])
                      @ (if aqi > 150 then [''Poor air quality - respiratory risks''] else [])
                      @ (if om_relative_humidity_2m weatherData > 80
                         then [''High humidity - heat exhaustion risk''] else [])
                in Inr \<lparr>cl_city = city, cl_temperature = temp,
                     cl_humidity = om_relative_humidity_2m weatherData, cl_aqi = aqi,
                     cl_weatherCondition = weatherCondition, cl_climateRisk = climateRisk,
                     cl_seasonalRisks = seasonalRisks, cl_timestamp = w_isoTime w,
                     cl_sources = \<lparr>src_weather = ''Open-Meteo (Real-time)'',
                       src_aqi = aqiSource\<rparr>\<rparr>)))"

definition climateFallback :: "world \<Rightarrow> string \<Rightarrow> ClimateData" where
  "climateFallback w city =
     \<lparr>cl_city = city, cl_temperature = 30, cl_humidity = 65, cl_aqi = 150,
      cl_weatherCondition = ''Clear'', cl_climateRisk = ''Moderate'',
      cl_seasonalRisks = [''Data temporarily unavailable''], cl_timestamp = w_isoTime w,
      cl_sources = \<lparr>src_weather = ''Fallback estimate'', src_aqi = ''Fallback estimate''\<rparr>\<rparr>"

text \<open>
  Each fetcher is \<open>try { return await withCache(...) } catch { return fallback }\<close>:
  the awaited call first, then the fetcher around it. The fetcher returns the cache as
  the call left it.
\<close>

definition climateAttempt ::
  "world \<Rightarrow> ClimateData cache \<Rightarrow> string \<Rightarrow> (js_error + ClimateData) \<times> ClimateData cache" where
  "climateAttempt w cache city =
     withCache (w_now w) (w_now w) (generateCacheKey ''climate'' [(''city'', city)]) 3600
       (climateProducer w city) cache"

definition fetchClimateData ::
  "world \<Rightarrow> ClimateData cache \<Rightarrow> string \<Rightarrow> ClimateData \<times> ClimateData cache" where
  "fetchClimateData w cache city =
     (case climateAttempt w cache city of
        (Inr d, cache') \<Rightarrow> (d, cache')
      | (Inl error, cache') \<Rightarrow> (climateFallback w city, cache'))"

subsection \<open>Death rate\<close>

definition cityMultipliers :: "string \<rightharpoonup> real" where
  "cityMultipliers = map_of [
     (''Mumbai'', 0.9), (''Delhi'', 1.0), (''Bangalore'', 0.85), (''Hyderabad'', 0.9),
     (''Chennai'', 0.88), (''Kolkata'', 1.05), (''Pune'', 0.87), (''Ahmedabad'', 0.95),
     (''Jaipur'', 1.0), (''Lucknow'', 1.05)]"

definition deathRateProducer :: "world \<Rightarrow> string \<Rightarrow> real \<Rightarrow> js_error + DeathRateData" where
  "deathRateProducer w city age =
     (case fst (fetchWithRetry worldBank_config (w_worldBank w)) of
        Inl error \<Rightarrow> Inl error
      | Inr response \<Rightarrow>
          (let baseRate =
                 (case response of
                    None \<Rightarrow> 7.3
                  | Some values \<Rightarrow>
                      (case find (\<lambda>v. v \<noteq> None) values of
                         Some (Some v) \<Rightarrow> if v \<noteq> 0 then v else 7.3
                       | _ \<Rightarrow> 7.3));
               ageAdjustedRate = baseRate;
               ageAdjustedRate =
                 (if age > 60 then ageAdjustedRate * 2.5
                  else if age > 50 then ageAdjustedRate * 1.8
                  else if age > 40 then ageAdjustedRate * 1.3
                  else if age > 30 then ageAdjustedRate * 1.0
                  else ageAdjustedRate * 0.7);
               multiplier = (case cityMultipliers city of Some m \<Rightarrow> m | None \<Rightarrow> 1.0);
               ageAdjustedRate = ageAdjustedRate * multiplier
           in Inr \<lparr>dr_country = ''India'', dr_city = city,
                dr_overallDeathRate = of_int (Math_round (baseRate * 10)) / 10,
                dr_ageAdjustedRate = of_int (Math_round (ageAdjustedRate * 10)) / 10,
                dr_year = 2023, dr_source = ''World Bank API'',
                dr_confidence = ConfHigh\<rparr>))"

definition deathRateFallback :: "string \<Rightarrow> real \<Rightarrow> DeathRateData" where
  "deathRateFallback city age =
     (let baseRate = 7.3;
          baseRate =
            (if age > 60 then baseRate * 2.5
             else if age > 50 then baseRate * 1.8
             else if age > 40 then baseRate * 1.3
             else baseRate)
      in \<lparr>dr_country = ''India'', dr_city = city, dr_overallDeathRate = 7.3,
           dr_ageAdjustedRate = of_int (Math_round (baseRate * 10)) / 10,
           dr_year = 2023, dr_source = ''Estimated (API unavailable)'',
           dr_confidence = ConfLow\<rparr>)"

definition deathRateAttempt ::
  "world \<Rightarrow> (real \<Rightarrow> string) \<Rightarrow> DeathRateData cache \<Rightarrow> string \<Rightarrow> real
     \<Rightarrow> (js_error + DeathRateData) \<times> DeathRateData cache" where
  "deathRateAttempt w str cache city age =
     withCache (w_now w) (w_now w)
       (generateCacheKey ''deathRate'' [(''city'', city), (''age'', str age)]) 86400
       (deathRateProducer w city age) cache"

definition fetchDeathRateData ::
  "world \<Rightarrow> (real \<Rightarrow> string) \<Rightarrow> DeathRateData cache \<Rightarrow> string \<Rightarrow> real
     \<Rightarrow> DeathRateData \<times> DeathRateData cache" where
  "fetchDeathRateData w str cache city age =
     (case deathRateAttempt w str cache city age of
        (Inr d, cache') \<Rightarrow> (d, cache')
      | (Inl error, cache') \<Rightarrow> (deathRateFallback city age, cache'))"

subsection \<open>Occupation death rate and crime: static tables\<close>

definition occupationRates :: "string \<rightharpoonup> real \<times> real" where
  "occupationRates = map_of [
     (''Construction Worker'', (18.5, 45.2)), (''Factory Worker'', (12.3, 38.7)),
     (''Driver'', (15.2, 28.4)), (''Healthcare Worker'', (8.7, 22.1)),
     (''Farmer'', (11.2, 35.6)), (''Engineer'', (5.4, 12.3)),
     (''Business Owner'', (4.8, 8.9)), (''Teacher'', (3.2, 5.4)),
     (''IT Professional'', (2.1, 4.2)), (''Student'', (1.5, 3.1))]"

definition occupationProducer :: "string \<Rightarrow> js_error + OccupationDeathRateData" where
  "occupationProducer occupation =
     (let (deathRate, injuryRate) =
            (case occupationRates occupation of Some rates \<Rightarrow> rates | None \<Rightarrow> (5.0, 15.0))
      in Inr \<lparr>od_occupation = occupation, od_deathRate = deathRate,
           od_injuryRate = injuryRate, od_fatalityRate = deathRate / 100000,
           od_year = 2023, od_source = ''ILO/OSHA Statistics'',
           od_confidence = ConfHigh\<rparr>)"

definition occupationFallback :: "string \<Rightarrow> OccupationDeathRateData" where
  "occupationFallback occupation =
     \<lparr>od_occupation = occupation, od_deathRate = 5.0, od_injuryRate = 15.0,
      od_fatalityRate = 0.00005, od_year = 2023, od_source = ''Estimated'',
      od_confidence = ConfLow\<rparr>"

definition occupationAttempt ::
  "world \<Rightarrow> OccupationDeathRateData cache \<Rightarrow> string
     \<Rightarrow> (js_error + OccupationDeathRateData) \<times> OccupationDeathRateData cache" where
  "occupationAttempt w cache occupation =
     withCache (w_now w) (w_now w)
       (generateCacheKey ''occupationDeathRate'' [(''occupation'', occupation)]) 86400
       (occupationProducer occupation) cache"

definition fetchOccupationDeathRate ::
  "world \<Rightarrow> OccupationDeathRateData cache \<Rightarrow> string
     \<Rightarrow> OccupationDeathRateData \<times> OccupationDeathRateData cache" where
  "fetchOccupationDeathRate w cache occupation =
     (case occupationAttempt w cache occupation of
        (Inr d, cache') \<Rightarrow> (d, cache')
      | (Inl error, cache') \<Rightarrow> (occupationFallback occupation, cache'))"

definition crimeRates :: "string \<rightharpoonup> real \<times> real \<times> real \<times> real" where
  "crimeRates = map_of [
     (''Delhi'', (1586.1, 45.2, 1540.9, 45)), (''Mumbai'', (182.5, 12.3, 170.2, 65)),
     (''Bangalore'', (455.8, 18.7, 437.1, 70)), (''Hyderabad'', (398.2, 15.4, 382.8, 72)),
     (''Chennai'', (342.7, 14.2, 328.5, 75)), (''Kolkata'', (156.8, 10.8, 146.0, 68)),
     (''Pune'', (289.4, 11.5, 277.9, 76)), (''Ahmedabad'', (312.5, 13.1, 299.4, 74)),
     (''Jaipur'', (267.3, 10.2, 257.1, 77)), (''Lucknow'', (245.6, 9.8, 235.8, 78))]"

definition crimeProducer :: "string \<Rightarrow> js_error + CrimeData" where
  "crimeProducer city =
     (let (rate, violent, property, safety) =
            (case crimeRates city of Some rates \<Rightarrow> rates | None \<Rightarrow> (300, 15, 285, 70))
      in Inr \<lparr>cr_city = city, cr_crimeRate = rate, cr_violentCrimeRate = violent,
           cr_propertyCrimeRate = property, cr_safetyIndex = safety, cr_year = 2023,
           cr_source = ''NCRB (National Crime Records Bureau)'', cr_trend = ''stable''\<rparr>)"

definition crimeFallback :: "string \<Rightarrow> CrimeData" where
  "crimeFallback city =
     \<lparr>cr_city = city, cr_crimeRate = 300, cr_violentCrimeRate = 15,
      cr_propertyCrimeRate = 285, cr_safetyIndex = 70, cr_year = 2023,
      cr_source = ''Estimated'', cr_trend = ''stable''\<rparr>"

definition crimeAttempt ::
  "world \<Rightarrow> CrimeData cache \<Rightarrow> string \<Rightarrow> (js_error + CrimeData) \<times> CrimeData cache" where
  "crimeAttempt w cache city =
     withCache (w_now w) (w_now w) (generateCacheKey ''crimeData'' [(''city'', city)]) 86400
       (crimeProducer city) cache"

definition fetchCrimeData ::
  "world \<Rightarrow> CrimeData cache \<Rightarrow> string \<Rightarrow> CrimeData \<times> CrimeData cache" where
  "fetchCrimeData w cache city =
     (case crimeAttempt w cache city of
        (Inr d, cache') \<Rightarrow> (d, cache')
      | (Inl error, cache') \<Rightarrow> (crimeFallback city, cache'))"

subsection \<open>Health alerts\<close>

definition generateFallbackAlerts :: "world \<Rightarrow> string \<Rightarrow> HealthAlert list" where
  "generateFallbackAlerts w city =
     [\<lparr>ha_title = ''General Health Advisory'',
       ha_description = ''Maintain regular health check-ups and follow preventive measures'',
       ha_severity = Low, ha_category = ''General Health'', ha_location = city,
       ha_date = w_isoTime w, ha_source = ''System Generated'', ha_url = None\<rparr>]"

definition determineSeverity :: "string \<Rightarrow> risk_level" where
  "determineSeverity text =
     (let lowerText = toLowerCase text
      in if str_includes lowerText ''critical'' \<or> str_includes lowerText ''emergency''
            \<or> str_includes lowerText ''outbreak'' then Critical
         else if str_includes lowerText ''warning'' \<or> str_includes lowerText ''alert''
            \<or> str_includes lowerText ''severe'' then High
         else if str_includes lowerText ''caution'' \<or> str_includes lowerText ''risk''
            \<or> str_includes lowerText ''concern'' then Medium
         else Low)"

definition alertsProducer :: "world \<Rightarrow> string \<Rightarrow> js_error + HealthAlert list" where
  "alertsProducer w city =
     (case fst (fetchWithRetry newsApi_config (w_newsApi w)) of
        Inl error \<Rightarrow> Inl error
      | Inr articles \<Rightarrow>
          (let alerts =
                 map (\<lambda>a.
                   \<lparr>ha_title = ar_title a,
                    ha_description = (case ar_description a of None \<Rightarrow> [] | Some d \<Rightarrow> d),
                    ha_severity = determineSeverity
                      (ar_title a @ '' ''
                         @ (case ar_description a of None \<Rightarrow> ''null'' | Some d \<Rightarrow> d)),
                    ha_category = ''Health News'', ha_location = city,
                    ha_date = ar_publishedAt a, ha_source = ar_sourceName a,
                    ha_url = Some (ar_url a)\<rparr>)
                   (take 3 articles)
           in Inr (if length alerts > 0 then alerts else generateFallbackAlerts w city)))"

definition alertsAttempt ::
  "world \<Rightarrow> HealthAlert list cache \<Rightarrow> string
     \<Rightarrow> (js_error + HealthAlert list) \<times> HealthAlert list cache" where
  "alertsAttempt w cache city =
     withCache (w_now w) (w_now w) (generateCacheKey ''healthAlerts'' [(''city'', city)]) 7200
       (alertsProducer w city) cache"

definition fetchHealthAlerts ::
  "world \<Rightarrow> HealthAlert list cache \<Rightarrow> string \<Rightarrow> HealthAlert list \<times> HealthAlert list cache" where
  "fetchHealthAlerts w cache city =
     (if \<not> isAPIKeyConfigured (w_newsApiKey w) then (generateFallbackAlerts w city, cache)
      else case alertsAttempt w cache city of
             (Inr d, cache') \<Rightarrow> (d, cache')
           | (Inl error, cache') \<Rightarrow> (generateFallbackAlerts w city, cache'))"

subsection \<open>All real-time data\<close>

text \<open>
  The one \<open>Map\<close> of the cache service, split by the prefix of the key: the five
  fetchers use five prefixes, so no fetcher reads what another has stored.
\<close>

record caches =
  climateCache :: "ClimateData cache"
  deathRateCache :: "DeathRateData cache"
  occupationCache :: "OccupationDeathRateData cache"
  crimeCache :: "CrimeData cache"
  alertsCache :: "HealthAlert list cache"

definition empty_caches :: caches where
  "empty_caches = \<lparr>climateCache = Map.empty, deathRateCache = Map.empty,
     occupationCache = Map.empty, crimeCache = Map.empty, alertsCache = Map.empty\<rparr>"

text \<open>The data quality block of \<open>fetchAllRealTimeData\<close>.\<close>

definition realTimeCount :: "ClimateData \<Rightarrow> DeathRateData \<Rightarrow> OccupationDeathRateData \<Rightarrow> nat" where
  "realTimeCount climate deathRate occupationDeathRate =
     length (filter (\<lambda>b. b)
       [str_includes (src_weather (cl_sources climate)) ''Real-time'',
        str_includes (src_aqi (cl_sources climate)) ''Real-time'',
        dr_confidence deathRate = ConfHigh,
        od_confidence occupationDeathRate = ConfHigh])"

definition dataQualityOf ::
  "ClimateData \<Rightarrow> DeathRateData \<Rightarrow> OccupationDeathRateData \<Rightarrow> CrimeData \<Rightarrow> DataQuality" where
  "dataQualityOf climate deathRate occupationDeathRate crime =
     (let sources = length (remdups
            [src_weather (cl_sources climate), src_aqi (cl_sources climate),
             dr_source deathRate, od_source occupationDeathRate, cr_source crime]);
          realTimePercentage =
            (real (realTimeCount climate deathRate occupationDeathRate) / 4) * 100;
          overall =
            (if realTimePercentage \<ge> 75 then Excellent
             else if realTimePercentage \<ge> 50 then Good
             else if realTimePercentage \<ge> 25 then Fair
             else Poor)
      in \<lparr>dq_overall = overall, dq_sources = sources,
           dq_realTimeDataPercentage = Math_round realTimePercentage\<rparr>)"

text \<open>
  \<open>fetchAllRealTimeData\<close>. The five fetchers run under \<open>Promise.all\<close>; they share no
  key of the cache, so their order does not matter.
\<close>

definition fetchAllRealTimeData ::
  "world \<Rightarrow> (real \<Rightarrow> string) \<Rightarrow> caches \<Rightarrow> string \<Rightarrow> string \<Rightarrow> real
     \<Rightarrow> RealTimeData \<times> caches" where
  "fetchAllRealTimeData w str cs city occupation age =
     (let (climate, c1) = fetchClimateData w (climateCache cs) city;
          (deathRate, c2) = fetchDeathRateData w str (deathRateCache cs) city age;
          (occupationDeathRate, c3) = fetchOccupationDeathRate w (occupationCache cs) occupation;
          (crime, c4) = fetchCrimeData w (crimeCache cs) city;
          (healthAlerts, c5) = fetchHealthAlerts w (alertsCache cs) city
      in (\<lparr>rt_climate = climate, rt_deathRate = deathRate,
           rt_occupationDeathRate = occupationDeathRate, rt_crime = crime,
           rt_healthAlerts = healthAlerts, rt_timestamp = w_isoTime w,
           rt_dataQuality = dataQualityOf climate deathRate occupationDeathRate crime\<rparr>,
          \<lparr>climateCache = c1, deathRateCache = c2, occupationCache = c3, crimeCache = c4,
           alertsCache = c5\<rparr>))"

section \<open>Data collector\<close>

record CollectedData =
  cd_environmental :: environmental
  cd_statistical :: statistical
  cd_occupationHazard :: occupation_hazard
  cd_cityStats :: "city_stats option"
  cd_realTimeData :: "RealTimeData option"
  cd_healthAlerts :: "HealthAlert list option"
  cd_dataQuality :: "DataQuality option"

text \<open>\<open>fetchEnvironmentalData\<close>, the \<open>axios\<close> call on the application's own route.\<close>

definition fetchEnvironmentalData :: "world \<Rightarrow> string \<Rightarrow> environmental" where
  "fetchEnvironmentalData w city =
     (case w_environmentApi w of
        Inr d \<Rightarrow>
          (let climateRisk =
                 (if ea_aqi d > 200 then ''Critical'' else if ea_aqi d > 150 then ''High''
                  else if ea_aqi d > 100 then ''Moderate'' else ''Low'')
           in \<lparr>env_city = ea_city d, env_aqi = ea_aqi d, env_temperature = ea_temperature d,
                env_humidity = ea_humidity d, env_climateRisk = climateRisk,
                env_weatherCondition = None, env_seasonalRisks = None,
                env_timestamp = ea_timestamp d, env_source = ea_source d\<rparr>)
      | Inl error \<Rightarrow>
          \<lparr>env_city = city, env_aqi = 150, env_temperature = 30, env_humidity = 65,
           env_climateRisk = ''Moderate'', env_weatherCondition = None,
           env_seasonalRisks = None, env_timestamp = w_isoTime w,
           env_source = \<lparr>src_weather = ''Fallback'', src_aqi = ''Estimated''\<rparr>\<rparr>)"

text \<open>
  The data collector's own \<open>fetchDeathRateData\<close>, an estimate without any fetch; the
  prefix tells it from the fetcher of the same name.
\<close>

definition collector_fetchDeathRateData :: "string \<Rightarrow> real \<Rightarrow> real" where
  "collector_fetchDeathRateData city age =
     (let baseRate = 7.3;
          baseRate =
            (if age > 60 then baseRate * 2.5
             else if age > 50 then baseRate * 1.8
             else if age > 40 then baseRate * 1.3
             else if age > 30 then baseRate * 1.0
             else baseRate * 0.7);
          multiplier = (case cityMultipliers city of Some m \<Rightarrow> m | None \<Rightarrow> 1.0)
      in of_int (Math_round (baseRate * multiplier * 10)) / 10)"

text \<open>
  \<open>getCityStatistics\<close> and \<open>getOccupationHazard\<close> belong to the crime-statistics
  and occupation-hazards modules, which are not part of the sources at hand: they are
  parameters, \<open>None\<close> where the lookup yields nothing to read a property from. Reading
  a property of nothing throws a \<open>TypeError\<close>.
\<close>

definition collectBasicData ::
  "world \<Rightarrow> (string \<Rightarrow> city_stats option) \<Rightarrow> (string \<Rightarrow> occupation_hazard option)
     \<Rightarrow> string \<Rightarrow> string \<Rightarrow> real \<Rightarrow> js_error + CollectedData" where
  "collectBasicData w getCityStatistics getOccupationHazard city occupation age =
     (let environmental = fetchEnvironmentalData w city;
          deathRate = collector_fetchDeathRateData city age
      in case getCityStatistics city of
           None \<Rightarrow> Inl OtherError
         | Some stats \<Rightarrow>
             (case getOccupationHazard occupation of
                None \<Rightarrow> Inl OtherError
              | Some hazard \<Rightarrow>
                  Inr \<lparr>cd_environmental = environmental,
                    cd_statistical =
                      \<lparr>st_deathRate = deathRate, st_crimeRate = cs_crimeRate stats,
                       st_occupationHazardLevel = oh_hazardLevel hazard,
                       st_occupationDeathRate = oh_deathRate hazard,
                       st_cityHealthIndex =
                         calculateCityHealthIndex (env_aqi environmental)
                           (cs_crimeRate stats) (env_temperature environmental),
                       st_ageAdjustedDeathRate = None, st_violentCrimeRate = None,
                       st_safetyIndex = None\<rparr>,
                    cd_occupationHazard = hazard,
                    cd_cityStats = Some stats, cd_realTimeData = None,
                    cd_healthAlerts = None, cd_dataQuality = None\<rparr>))"

text \<open>
  \<open>collectAllData\<close>. In its \<open>try\<close> block only the read of
  \<open>occupationHazard.hazardLevel\<close> can throw; the \<open>catch\<close> block then runs the basic
  collection.
\<close>

definition collectAllData ::
  "world \<Rightarrow> (real \<Rightarrow> string) \<Rightarrow> (string \<Rightarrow> city_stats option)
     \<Rightarrow> (string \<Rightarrow> occupation_hazard option) \<Rightarrow> caches \<Rightarrow> string \<Rightarrow> string \<Rightarrow> real
     \<Rightarrow> (js_error + CollectedData) \<times> caches" where
  "collectAllData w str getCityStatistics getOccupationHazard cs city occupation age =
     (let (realTimeData, cs') = fetchAllRealTimeData w str cs city occupation age;
          stats = getCityStatistics city;
          climate = rt_climate realTimeData;
          environmental =
            \<lparr>env_city = cl_city climate, env_aqi = cl_aqi climate,
             env_temperature = cl_temperature climate, env_humidity = cl_humidity climate,
             env_climateRisk = cl_climateRisk climate,
             env_weatherCondition = Some (cl_weatherCondition climate),
             env_seasonalRisks = Some (cl_seasonalRisks climate),
             env_timestamp = cl_timestamp climate, env_source = cl_sources climate\<rparr>;
          cityHealthIndex =
            calculateCityHealthIndex (env_aqi environmental)
              (cr_crimeRate (rt_crime realTimeData)) (env_temperature environmental)
      in case getOccupationHazard occupation of
           None \<Rightarrow>
             (collectBasicData w getCityStatistics getOccupationHazard city occupation age, cs')
         | Some hazard \<Rightarrow>
             (Inr \<lparr>cd_environmental = environmental,
                cd_statistical =
                  \<lparr>st_deathRate = dr_overallDeathRate (rt_deathRate realTimeData),
                   st_crimeRate = cr_crimeRate (rt_crime realTimeData),
                   st_occupationHazardLevel = oh_hazardLevel hazard,
                   st_occupationDeathRate =
                     od_deathRate (rt_occupationDeathRate realTimeData),
                   st_cityHealthIndex = cityHealthIndex,
                   st_ageAdjustedDeathRate =
                     Some (dr_ageAdjustedRate (rt_deathRate realTimeData)),
                   st_violentCrimeRate = Some (cr_violentCrimeRate (rt_crime realTimeData)),
                   st_safetyIndex = Some (cr_safetyIndex (rt_crime realTimeData))\<rparr>,
                cd_occupationHazard = hazard, cd_cityStats = stats,
                cd_realTimeData = Some realTimeData,
                cd_healthAlerts = Some (rt_healthAlerts realTimeData),
                cd_dataQuality = Some (rt_dataQuality realTimeData)\<rparr>,
              cs'))"

section \<open>Failing sources, and the worlds of the examples\<close>

text \<open>
  A source fails when every attempt that \<open>fetchWithRetry\<close> can make on it fails; every
  external source fails when the five upstream services and the application's own
  environment route do.
\<close>

definition alwaysFails :: "APIConfig \<Rightarrow> (nat \<Rightarrow> 'a attempt) \<Rightarrow> bool" where
  "alwaysFails config net =
     list_all (\<lambda>k. isl (tryAttempt (net k))) [0..<Suc (retryAttempts config)]"

definition all_sources_fail :: "world \<Rightarrow> bool" where
  "all_sources_fail w \<longleftrightarrow>
     alwaysFails openMeteo_config (w_openMeteo w) \<and>
     alwaysFails aqicn_config (w_aqicn w) \<and>
     alwaysFails openWeatherMap_config (w_openWeatherMap w) \<and>
     alwaysFails worldBank_config (w_worldBank w) \<and>
     alwaysFails newsApi_config (w_newsApi w) \<and>
     isl (w_environmentApi w)"

text \<open>The overall grade of a collection, when it returned one with a data quality.\<close>

definition overallOf :: "js_error + CollectedData \<Rightarrow> quality option" where
  "overallOf r =
     (case r of Inl e \<Rightarrow> None | Inr cd \<Rightarrow> map_option dq_overall (cd_dataQuality cd))"

text \<open>
  For comparison with \<open>dataQualityOf\<close>, the grade as the specification words it: the
  grade of ``the fraction of fetchers that returned live (non-fallback) data'', at least
  75% excellent, at least 50% good, at least 25% fair, else poor. A fetcher returned
  live data when its awaited call resolved (for the health alerts: the key is configured
  and the call resolved); \<open>liveFetchers\<close> lists the five in the order of
  \<open>Promise.all\<close>.
\<close>

definition gradeOfFraction :: "nat \<Rightarrow> nat \<Rightarrow> quality" where
  "gradeOfFraction live fetchers =
     (let percentage = real live / real fetchers * 100
      in if percentage \<ge> 75 then Excellent else if percentage \<ge> 50 then Good
         else if percentage \<ge> 25 then Fair else Poor)"

definition liveFetchers ::
  "world \<Rightarrow> (real \<Rightarrow> string) \<Rightarrow> caches \<Rightarrow> string \<Rightarrow> string \<Rightarrow> real \<Rightarrow> bool list" where
  "liveFetchers w str cs city occupation age =
     [\<not> isl (fst (climateAttempt w (climateCache cs) city)),
      \<not> isl (fst (deathRateAttempt w str (deathRateCache cs) city age)),
      \<not> isl (fst (occupationAttempt w (occupationCache cs) occupation)),
      \<not> isl (fst (crimeAttempt w (crimeCache cs) city)),
      isAPIKeyConfigured (w_newsApiKey w) \<and> \<not> isl (fst (alertsAttempt w (alertsCache cs) city))]"

text \<open>
  A world in which every request is answered by 503 and the environment route is down,
  and a world in which only Open-Meteo is down: the World Bank answers, the news source
  answers with one article, no AQICN or OpenWeatherMap key is set.
\<close>

definition dead_world :: world where
  "dead_world = \<lparr>
     w_openMeteo = (\<lambda>k. Responded 503 None), w_aqicnKey = ''a-key'',
     w_aqicn = (\<lambda>k. Responded 503 None), w_openWeatherMapKey = ''o-key'',
     w_openWeatherMap = (\<lambda>k. Responded 503 None),
     w_worldBank = (\<lambda>k. Responded 503 None), w_newsApiKey = ''n-key'',
     w_newsApi = (\<lambda>k. Responded 503 None), w_environmentApi = Inl OtherError,
     w_now = 0, w_isoTime = ''2024-01-01T00:00:00.000Z''\<rparr>"

definition climate_down_world :: world where
  "climate_down_world = \<lparr>
     w_openMeteo = (\<lambda>k. NetworkError), w_aqicnKey = [],
     w_aqicn = (\<lambda>k. NetworkError), w_openWeatherMapKey = [],
     w_openWeatherMap = (\<lambda>k. NetworkError),
     w_worldBank = (\<lambda>k. Responded 200 (Some (Some [None, Some 7.2]))),
     w_newsApiKey = ''n-key'',
     w_newsApi = (\<lambda>k. Responded 200 (Some
       [\<lparr>ar_title = ''Flu alert'', ar_description = None, ar_publishedAt = ''2024-01-01'',
         ar_sourceName = ''Daily'', ar_url = ''https://news.example/flu''\<rparr>])),
     w_environmentApi = Inl OtherError,
     w_now = 0, w_isoTime = ''2024-01-01T00:00:00.000Z''\<rparr>"

text \<open>Stand-ins for the static tables and the number printer, good for the examples.\<close>

definition sample_getCityStatistics :: "string \<Rightarrow> city_stats option" where
  "sample_getCityStatistics city =
     (if city = ''Delhi'' then Some \<lparr>cs_crimeRate = 1586.1\<rparr> else None)"

definition sample_getOccupationHazard :: "string \<Rightarrow> occupation_hazard option" where
  "sample_getOccupationHazard occupation =
     (if occupation = ''Factory Worker''
      then Some \<lparr>oh_hazardLevel = High, oh_deathRate = 12.3, oh_riskScore = 75,
        oh_preventiveMeasures = []\<rparr>
      else None)"

definition sample_str :: "real \<Rightarrow> string" where
  "sample_str x = (if x = 65 then ''65'' else ''22'')"

section \<open>Properties of the financial planner\<close>

lemma Math_round_of_int: "Math_round (of_int n) = n"
  by (simp add: Math_round_def)

text \<open>
  C6: the plan selected from a risk score is Premium Health Shield (1,000,000 / 8,500)
  exactly when the score exceeds 70, Comprehensive Care Plus (500,000 / 5,500) exactly
  when the score is above 50 and at most 70, and Essential Health Cover
  (300,000 / 3,500) exactly when the score is at most 50.
\<close>

theorem getInsurancePlan_bands:
  "(getInsurancePlan s =
      \<lparr>name = ''Premium Health Shield'', coverage = 1000000, premium = 8500\<rparr>
      \<longleftrightarrow> s > 70) \<and>
   (getInsurancePlan s =
      \<lparr>name = ''Comprehensive Care Plus'', coverage = 500000, premium = 5500\<rparr>
      \<longleftrightarrow> 50 < s \<and> s \<le> 70) \<and>
   (getInsurancePlan s =
      \<lparr>name = ''Essential Health Cover'', coverage = 300000, premium = 3500\<rparr>
      \<longleftrightarrow> s \<le> 50)"
  by (simp add: getInsurancePlan_def)

text \<open>
  C7: the monthly savings target is the rounding of 2000 times riskScore / 50; on a
  whole-number score this is 40 times the score, and the target at 100 is exactly twice
  the target at 50.
\<close>

theorem calculateMonthlySavings_linear:
  "calculateMonthlySavings p s = Math_round (2000 * s / 50) \<and>
   calculateMonthlySavings p (of_int n) = 40 * n \<and>
   calculateMonthlySavings p 100 = 2 * calculateMonthlySavings p 50"
proof -
  have a: "calculateMonthlySavings p s = Math_round (2000 * s / 50)"
    by (simp add: calculateMonthlySavings_def)
  have "(2000::real) * (of_int n / 50) = of_int (40 * n)"
    by simp
  then have b: "calculateMonthlySavings p (of_int n) = 40 * n"
    unfolding calculateMonthlySavings_def Let_def by (simp only: Math_round_of_int)
  have c: "calculateMonthlySavings p 100 = 2 * calculateMonthlySavings p 50"
    by (simp add: calculateMonthlySavings_def Math_round_def)
  from a b c show ?thesis by blast
qed

section \<open>Properties of the risk score\<close>

lemma Math_round_mono: "x \<le> y \<Longrightarrow> Math_round x \<le> Math_round y"
  unfolding Math_round_def by (intro floor_mono) simp

lemma Math_round_ge: "of_int n \<le> x \<Longrightarrow> n \<le> Math_round x"
  using Math_round_mono [of "of_int n" x] by (simp add: Math_round_of_int)

lemma agePoints_nonneg: "0 \<le> agePoints a"
  by (simp add: agePoints_def)

lemma ageDeathRateImpact_nonneg: "nonneg_opt r \<Longrightarrow> 0 \<le> ageDeathRateImpact r"
  by (cases r) (simp_all add: ageDeathRateImpact_def)

lemma aqiPoints_ge_5: "5 \<le> aqiPoints a"
  by (simp add: aqiPoints_def)

lemma seasonalPoints_nonneg: "0 \<le> seasonalPoints rs"
  by (simp add: seasonalPoints_def)

lemma occupationPoints_nonneg: "0 \<le> r \<Longrightarrow> 0 \<le> occupationPoints r"
  unfolding occupationPoints_def using Math_round_ge [of 0 "r * 0.2"] by simp

lemma presentPoints_nonneg: "0 \<le> pts \<Longrightarrow> 0 \<le> presentPoints s pts"
  by (simp add: presentPoints_def)

lemma shiftPoints_nonneg: "0 \<le> shiftPoints w"
  by (simp add: shiftPoints_def)

lemma violentCrimePoints_nonneg: "0 \<le> violentCrimePoints v"
  by (simp add: violentCrimePoints_def)

lemma safetyPoints_nonneg: "0 \<le> safetyPoints si"
  by (simp add: safetyPoints_def)

text \<open>The base 10 points and the lowest AQI band of 5 are always in the sum.\<close>

lemma rawScore_ge_15:
  assumes "valid_input csi inp"
  shows "15 \<le> rawScore csi inp"
proof -
  have 1: "0 \<le> ageDeathRateImpact (st_ageAdjustedDeathRate (statisticalData inp))"
    using assms by (simp add: valid_input_def ageDeathRateImpact_nonneg)
  have 2: "0 \<le> occupationPoints (oh_riskScore (occupationHazard inp))"
    using assms by (simp add: valid_input_def occupationPoints_nonneg)
  have 3: "0 \<le> min (csi (cs_crimeRate (cityStats inp))) 10"
    using assms by (simp add: valid_input_def)
  have 4: "0 \<le> presentPoints (up_healthCondition (userProfile inp)) 15"
    "0 \<le> presentPoints (up_addictions (userProfile inp)) 10"
    "0 \<le> presentPoints (up_pastSurgery (userProfile inp)) 5"
    by (simp_all add: presentPoints_nonneg)
  show ?thesis
    unfolding rawScore_def
    using 1 2 3 4 agePoints_nonneg [of "up_age (userProfile inp)"]
      aqiPoints_ge_5 [of "env_aqi (environmentalData inp)"]
      seasonalPoints_nonneg [of "env_seasonalRisks (environmentalData inp)"]
      shiftPoints_nonneg [of "up_workShift (userProfile inp)"]
      violentCrimePoints_nonneg [of "st_violentCrimeRate (statisticalData inp)"]
      safetyPoints_nonneg [of "st_safetyIndex (statisticalData inp)"]
    by linarith
qed

lemma calculateRiskScore_lower:
  "valid_input csi inp \<Longrightarrow> 15 \<le> calculateRiskScore csi inp"
  unfolding calculateRiskScore_def
  using Math_round_ge [of 15 "rawScore csi inp"] rawScore_ge_15 [of csi inp] by simp

lemma calculateRiskScore_upper: "calculateRiskScore csi inp \<le> 100"
  by (simp add: calculateRiskScore_def)

lemma getRiskLevel_of_int:
  "(getRiskLevel (of_int n) = Critical \<longleftrightarrow> 80 \<le> n) \<and>
   (getRiskLevel (of_int n) = High \<longleftrightarrow> 60 \<le> n \<and> n < 80) \<and>
   (getRiskLevel (of_int n) = Medium \<longleftrightarrow> 40 \<le> n \<and> n < 60) \<and>
   (getRiskLevel (of_int n) = Low \<longleftrightarrow> n < 40)"
  by (simp add: getRiskLevel_def)

lemma valid_delhi_input: "valid_input sample_csi delhi_input"
  by (simp add: valid_input_def delhi_input_def sample_csi_def)

lemma valid_bangalore_input: "valid_input sample_csi bangalore_input"
  by (simp add: valid_input_def bangalore_input_def sample_csi_def)

text \<open>
  C1: on an input whose numeric fields are not negative (and whose crime-stress impact
  is not negative), \<open>calculateRiskScore\<close> returns a whole number between 0 and 100,
  and \<open>getRiskLevel\<close> maps it to critical exactly from 80, to high exactly from 60 to
  below 80, to medium exactly from 40 to below 60, and to low exactly below 40.
\<close>

theorem calculateRiskScore_range_and_level:
  assumes "valid_input csi inp"
  shows "0 \<le> calculateRiskScore csi inp \<and> calculateRiskScore csi inp \<le> 100 \<and>
    (getRiskLevel (of_int (calculateRiskScore csi inp)) = Critical
       \<longleftrightarrow> 80 \<le> calculateRiskScore csi inp) \<and>
    (getRiskLevel (of_int (calculateRiskScore csi inp)) = High
       \<longleftrightarrow> 60 \<le> calculateRiskScore csi inp \<and> calculateRiskScore csi inp < 80) \<and>
    (getRiskLevel (of_int (calculateRiskScore csi inp)) = Medium
       \<longleftrightarrow> 40 \<le> calculateRiskScore csi inp \<and> calculateRiskScore csi inp < 60) \<and>
    (getRiskLevel (of_int (calculateRiskScore csi inp)) = Low
       \<longleftrightarrow> calculateRiskScore csi inp < 40)"
proof -
  have lo: "0 \<le> calculateRiskScore csi inp"
    using calculateRiskScore_lower [OF assms] by simp
  from lo calculateRiskScore_upper [of csi inp]
    getRiskLevel_of_int [of "calculateRiskScore csi inp"]
  show ?thesis by blast
qed

theorem calculateRiskScore_range_and_level_witness:
  "valid_input sample_csi delhi_input \<and>
   0 \<le> calculateRiskScore sample_csi delhi_input \<and>
   calculateRiskScore sample_csi delhi_input \<le> 100 \<and>
   (getRiskLevel (of_int (calculateRiskScore sample_csi delhi_input)) = Critical
      \<longleftrightarrow> 80 \<le> calculateRiskScore sample_csi delhi_input)"
  using valid_delhi_input
    calculateRiskScore_range_and_level [OF valid_delhi_input]
  by blast

text \<open>
  C9: on such an input the score is at least 15, the base 10 points plus the lowest AQI
  band of 5, so no score lies in [0, 15) and the level is low exactly on [15, 40).
\<close>

theorem calculateRiskScore_at_least_15:
  assumes "valid_input csi inp"
  shows "15 \<le> calculateRiskScore csi inp \<and>
    (getRiskLevel (of_int (calculateRiskScore csi inp)) = Low
       \<longleftrightarrow> 15 \<le> calculateRiskScore csi inp \<and> calculateRiskScore csi inp < 40)"
  using calculateRiskScore_lower [OF assms]
    getRiskLevel_of_int [of "calculateRiskScore csi inp"]
  by blast

theorem calculateRiskScore_at_least_15_witness:
  "valid_input sample_csi bangalore_input \<and>
   15 \<le> calculateRiskScore sample_csi bangalore_input \<and>
   (getRiskLevel (of_int (calculateRiskScore sample_csi bangalore_input)) = Low
      \<longleftrightarrow> 15 \<le> calculateRiskScore sample_csi bangalore_input
        \<and> calculateRiskScore sample_csi bangalore_input < 40)"
  using valid_bangalore_input
    calculateRiskScore_at_least_15 [OF valid_bangalore_input]
  by blast

section \<open>Properties of the risk factor list\<close>

text \<open>
  With the comparator of \<open>generateRiskFactors\<close> the sort is the library's stable
  insertion sort on the negated impact.
\<close>

lemma sort_insert_impact:
  "sort_insert (\<lambda>a b. impact b - impact a) x ys = insort_key (\<lambda>f. - impact f) x ys"
  by (induction ys) simp_all

lemma Array_sort_impact:
  "Array_sort (\<lambda>a b. impact b - impact a) xs = sort_key (\<lambda>f. - impact f) xs"
  unfolding Array_sort_def sort_key_def
  by (induction xs) (simp_all add: sort_insert_impact)

lemma Array_sort_descending:
  "sorted_wrt (\<lambda>a b. impact a \<ge> impact b) (Array_sort (\<lambda>a b. impact b - impact a) xs)"
proof -
  have "sorted (map (\<lambda>f. - impact f) (sort_key (\<lambda>f. - impact f) xs))"
    by (rule sorted_sort_key)
  then show ?thesis
    by (simp add: Array_sort_impact sorted_map)
qed

lemma Array_sort_stable:
  "filter (\<lambda>f. impact f = k) (Array_sort (\<lambda>a b. impact b - impact a) xs)
     = filter (\<lambda>f. impact f = k) xs"
  using sort_key_stable [of "\<lambda>f. - impact f" "- k" xs]
  by (simp add: Array_sort_impact)

lemma Array_sort_mset:
  "mset (Array_sort (\<lambda>a b. impact b - impact a) xs) = mset xs"
  by (simp add: Array_sort_impact)

text \<open>
  C4: the list returned by \<open>generateRiskFactors\<close> is in non-increasing order of
  impact; it holds the pushed factors and no others, and for every impact value the
  factors of that impact stand in the order in which they were pushed.
\<close>

theorem generateRiskFactors_sorted_stable:
  "sorted_wrt (\<lambda>a b. impact a \<ge> impact b) (generateRiskFactors csi str toFixed1 inp) \<and>
   mset (generateRiskFactors csi str toFixed1 inp)
     = mset (pushedFactors csi str toFixed1 inp) \<and>
   (\<forall>k. filter (\<lambda>f. impact f = k) (generateRiskFactors csi str toFixed1 inp)
         = filter (\<lambda>f. impact f = k) (pushedFactors csi str toFixed1 inp))"
  unfolding generateRiskFactors_def
  using Array_sort_descending Array_sort_stable Array_sort_mset by blast

section \<open>Properties of the retrying fetch\<close>

lemma lastAttempt_from_here:
  "a < retryAttempts config \<Longrightarrow> \<not> retryable (net a) \<Longrightarrow> lastAttempt_from config net a = a"
  by (simp add: lastAttempt_from_def upt_conv_Cons)

lemma lastAttempt_from_next:
  "a < retryAttempts config \<Longrightarrow> retryable (net a)
     \<Longrightarrow> lastAttempt_from config net a = lastAttempt_from config net (Suc a)"
  by (simp add: lastAttempt_from_def upt_conv_Cons)

lemma lastAttempt_from_end:
  "retryAttempts config \<le> a \<Longrightarrow> lastAttempt_from config net a = retryAttempts config"
  by (simp add: lastAttempt_from_def)

lemma lastAttempt_from_bounds:
  "a \<le> retryAttempts config \<Longrightarrow>
     a \<le> lastAttempt_from config net a \<and> lastAttempt_from config net a \<le> retryAttempts config"
  by (auto simp: lastAttempt_from_def find_Some_iff split: option.splits)

lemma fetchWithRetry_from_run:
  "attempt \<le> retryAttempts config \<Longrightarrow>
   fetchWithRetry_from config net attempt lastError =
     (finalOutcome (net (lastAttempt_from config net attempt)),
      backoffLog_from config attempt (lastAttempt_from config net attempt))"
proof (induction config net attempt lastError rule: fetchWithRetry_from.induct)
  case (1 config net attempt lastError)
  show ?case
  proof (cases "retryable (net attempt)")
    case False
    have s: "lastAttempt_from config net attempt = attempt"
      using False "1.prems" lastAttempt_from_here [of attempt config net]
        lastAttempt_from_end [of config attempt net]
      by (cases "attempt < retryAttempts config") auto
    show ?thesis
      using False "1.prems"
      by (subst fetchWithRetry_from.simps)
        (auto simp: s backoffLog_from_def finalOutcome_def retryable_def split: sum.splits)
  next
    case True
    then obtain e where e: "tryAttempt (net attempt) = Inl e" "\<not> noRetry e"
      by (auto simp: retryable_def split: sum.splits)
    show ?thesis
    proof (cases "attempt < retryAttempts config")
      case lt: True
      have s: "lastAttempt_from config net attempt = lastAttempt_from config net (Suc attempt)"
        using True lt by (rule lastAttempt_from_next [rotated])
      have b: "Suc attempt \<le> lastAttempt_from config net (Suc attempt)"
        using lt lastAttempt_from_bounds [of "Suc attempt" config net] by simp
      have ih: "fetchWithRetry_from config net (attempt + 1) (Some e) =
         (finalOutcome (net (lastAttempt_from config net (attempt + 1))),
          backoffLog_from config (attempt + 1) (lastAttempt_from config net (attempt + 1)))"
        using "1.IH"(1) [OF "1.prems" e(1) e(2) lt] lt by simp
      have l: "backoffLog_from config attempt (lastAttempt_from config net (Suc attempt)) =
          Attempt attempt # Sleep (retryDelay config * 2 ^ attempt)
            # backoffLog_from config (Suc attempt) (lastAttempt_from config net (Suc attempt))"
        using b by (simp add: backoffLog_from_def upt_conv_Cons)
      show ?thesis
        using e lt ih "1.prems"
        by (subst fetchWithRetry_from.simps) (simp add: s l)
    next
      case False
      then have eq: "attempt = retryAttempts config" using "1.prems" by simp
      have s: "lastAttempt_from config net (retryAttempts config) = retryAttempts config"
        using lastAttempt_from_end [of config "retryAttempts config" net] by simp
      have nxt: "fetchWithRetry_from config net (attempt + 1) (Some e)
           = (Inl (APIError None (Some e)), [])"
        using eq by (subst fetchWithRetry_from.simps) simp
      show ?thesis
        using e True eq nxt
        by (subst fetchWithRetry_from.simps)
          (simp add: s backoffLog_from_def finalOutcome_def)
    qed
  qed
qed

lemma fetchWithRetry_run:
  "fetchWithRetry config net =
     (finalOutcome (net (lastAttempt config net)), backoffLog config (lastAttempt config net))"
  unfolding fetchWithRetry_def lastAttempt_def backoffLog_def
  by (rule fetchWithRetry_from_run) simp

lemma lastAttempt_le: "lastAttempt config net \<le> retryAttempts config"
  using lastAttempt_from_bounds [of 0 config net] by (simp add: lastAttempt_def)

lemma retryable_before_lastAttempt:
  "k < lastAttempt config net \<Longrightarrow> retryable (net k)"
  unfolding lastAttempt_def lastAttempt_from_def
  by (auto simp: find_Some_iff find_None_iff split: option.splits)

lemma lastAttempt_stops:
  "lastAttempt config net < retryAttempts config \<Longrightarrow> \<not> retryable (net (lastAttempt config net))"
  unfolding lastAttempt_def lastAttempt_from_def
  by (auto simp: find_Some_iff find_None_iff split: option.splits)

lemma retryable_http_error:
  "\<not> (200 \<le> status \<and> status \<le> 299) \<Longrightarrow>
     retryable (Responded status body) \<longleftrightarrow> \<not> (400 \<le> status \<and> status < 500 \<and> status \<noteq> 429)"
  by (auto simp: retryable_def)

text \<open>
  C5: the run makes attempts \<open>0\<close> to \<open>lastAttempt\<close>, at most \<open>retryAttempts\<close>
  retries beyond the first attempt, and sleeps \<open>retryDelay * 2 ^ k\<close> after the failed
  attempt \<open>k\<close> before the next one. An attempt answered by an HTTP error is followed
  by a retry exactly when attempts remain and the status is not a 4xx other than 429; a
  4xx other than 429 ends the run with that error, and a 429 or 5xx at every attempt
  ends it with the error of exhaustion.
\<close>

theorem fetchWithRetry_backoff:
  "snd (fetchWithRetry config net) = backoffLog config (lastAttempt config net) \<and>
   fst (fetchWithRetry config net) = finalOutcome (net (lastAttempt config net)) \<and>
   lastAttempt config net \<le> retryAttempts config \<and>
   (\<forall>k status body.
      k \<le> lastAttempt config net \<and> net k = Responded status body
        \<and> \<not> (200 \<le> status \<and> status \<le> 299) \<longrightarrow>
      (k < lastAttempt config net \<longleftrightarrow>
         k < retryAttempts config \<and> \<not> (400 \<le> status \<and> status < 500 \<and> status \<noteq> 429))) \<and>
   (\<forall>status body.
      net (lastAttempt config net) = Responded status body
        \<and> 400 \<le> status \<and> status < 500 \<and> status \<noteq> 429 \<longrightarrow>
      fst (fetchWithRetry config net) = Inl (APIError (Some status) None))"
proof -
  have iff: "k < lastAttempt config net \<longleftrightarrow>
         k < retryAttempts config \<and> \<not> (400 \<le> status \<and> status < 500 \<and> status \<noteq> 429)"
    if k: "k \<le> lastAttempt config net" and r: "net k = Responded status body"
      and nok: "\<not> (200 \<le> status \<and> status \<le> 299)" for k status body
  proof
    assume lt: "k < lastAttempt config net"
    then have "retryable (net k)" by (rule retryable_before_lastAttempt)
    then have "\<not> (400 \<le> status \<and> status < 500 \<and> status \<noteq> 429)"
      using r nok retryable_http_error [of status body] by simp
    moreover have "k < retryAttempts config"
      using lt lastAttempt_le [of config net] by simp
    ultimately show "k < retryAttempts config \<and> \<not> (400 \<le> status \<and> status < 500 \<and> status \<noteq> 429)"
      by simp
  next
    assume a: "k < retryAttempts config \<and> \<not> (400 \<le> status \<and> status < 500 \<and> status \<noteq> 429)"
    then have ret: "retryable (net k)"
      using r nok retryable_http_error [of status body] by simp
    show "k < lastAttempt config net"
    proof (rule ccontr)
      assume "\<not> k < lastAttempt config net"
      then have "k = lastAttempt config net" using k by simp
      then show False using a ret lastAttempt_stops [of config net] by simp
    qed
  qed
  have terminal: "fst (fetchWithRetry config net) = Inl (APIError (Some status) None)"
    if "net (lastAttempt config net) = Responded status body"
      and "400 \<le> status" "status < 500" "status \<noteq> 429" for status body
    using that by (simp add: fetchWithRetry_run finalOutcome_def)
  show ?thesis
    using iff terminal lastAttempt_le [of config net] by (simp add: fetchWithRetry_run)
qed

lemma lastAttempt_failing_net: "lastAttempt newsApi_config failing_net = 2"
  by (simp add: lastAttempt_def lastAttempt_from_def newsApi_config_def failing_net_def
      retryable_def upt_rec)

lemma backoffLog_newsApi_2:
  "backoffLog newsApi_config 2 = [Attempt 0, Sleep 1000, Attempt 1, Sleep 2000, Attempt 2]"
  by (simp add: backoffLog_def backoffLog_from_def newsApi_config_def upt_rec)

theorem fetchWithRetry_backoff_witness:
  "snd (fetchWithRetry newsApi_config failing_net)
     = [Attempt 0, Sleep 1000, Attempt 1, Sleep 2000, Attempt 2] \<and>
   fst (fetchWithRetry newsApi_config failing_net) = Inl (APIError (Some 404) None) \<and>
   (1 \<le> lastAttempt newsApi_config failing_net \<and> failing_net 1 = Responded 429 None
      \<and> \<not> (200 \<le> (429::nat) \<and> (429::nat) \<le> 299)) \<and>
   (1 < lastAttempt newsApi_config failing_net \<longleftrightarrow>
      1 < retryAttempts newsApi_config
        \<and> \<not> (400 \<le> (429::nat) \<and> (429::nat) < 500 \<and> (429::nat) \<noteq> 429))"
proof -
  note run = fetchWithRetry_backoff [of newsApi_config failing_net]
  have m: "lastAttempt newsApi_config failing_net = 2"
    by (rule lastAttempt_failing_net)
  have n1: "failing_net 1 = Responded 429 None" and n2: "failing_net 2 = Responded 404 None"
    by (simp_all add: failing_net_def)
  have out: "finalOutcome (Responded 404 None :: unit attempt) = Inl (APIError (Some 404) None)"
    by (simp add: finalOutcome_def)
  have r: "retryAttempts newsApi_config = 2"
    by (simp add: newsApi_config_def)
  from run have "snd (fetchWithRetry newsApi_config failing_net)
       = [Attempt 0, Sleep 1000, Attempt 1, Sleep 2000, Attempt 2]"
    and "fst (fetchWithRetry newsApi_config failing_net) = Inl (APIError (Some 404) None)"
    by (simp_all only: m n2 out backoffLog_newsApi_2)
  then show ?thesis
    using n1 by (simp add: m r)
qed

section \<open>Properties of the cache wrapper\<close>

lemma cache_get_miss:
  "fst (cache_get now key cache) = None \<Longrightarrow> snd (cache_get now key cache) = cache(key := None)"
  by (auto simp: cache_get_def Let_def split: option.splits if_splits)

lemma cache_get_hit:
  "fst (cache_get now key cache) = Some v \<Longrightarrow> snd (cache_get now key cache) = cache"
  by (auto simp: cache_get_def Let_def split: option.splits if_splits)

lemma withCache_miss:
  "fst (cache_get now key cache) = None \<Longrightarrow>
   withCache now later key ttl fetchFn cache =
     (case fetchFn of
        Inr d \<Rightarrow> (Inr d, cache(key \<mapsto> \<lparr>ce_data = d, ce_timestamp = later, ce_ttl = ttl\<rparr>))
      | Inl e \<Rightarrow> (Inl e, cache(key := None)))"
  using cache_get_miss [of now key cache]
  by (cases "cache_get now key cache") (simp add: withCache_def cache_set_def split: sum.splits)

lemma withCache_hit:
  "fst (cache_get now key cache) = Some v \<Longrightarrow>
   withCache now later key ttl fetchFn cache = (Inr v, cache)"
  using cache_get_hit [of now key cache v]
  by (cases "cache_get now key cache") (simp add: withCache_def)

text \<open>
  A rejected producer does not always leave the cache state unchanged: not when the
  lookup meets an expired entry under the key: \<open>get\<close> deletes it before the producer
  runs.
\<close>

theorem withCache_rejection_counterexample:
  "fst (withCache 2000 2001 ''k'' 1 (Inl OtherError) expired_cache) = Inl OtherError \<and>
   snd (withCache 2000 2001 ''k'' 1 (Inl OtherError) expired_cache) \<noteq> expired_cache"
proof -
  have miss: "fst (cache_get 2000 ''k'' expired_cache) = None"
    by (simp add: cache_get_def expired_cache_def)
  have "withCache 2000 2001 ''k'' 1 (Inl OtherError) expired_cache
      = (Inl OtherError, expired_cache(''k'' := None))"
    using withCache_miss [OF miss] by simp
  moreover have "(expired_cache(''k'' := None)) ''k'' \<noteq> expired_cache ''k''"
    by (simp add: expired_cache_def)
  ultimately show ?thesis by (metis fst_conv snd_conv)
qed

text \<open>
  C10 (amended): when the lookup misses and the producer rejects, the rejection is the
  result and the cache afterwards is the cache before without an entry for the key (so
  unchanged when the key had none; an expired entry is gone). An entry that the call
  leaves under the key and that was not there before was stored from a value the
  producer resolved with, after a miss.
\<close>

theorem withCache_rejection:
  "(fst (cache_get now cacheKey cache) = None \<longrightarrow>
      withCache now later cacheKey ttl (Inl e) cache = (Inl e, cache(cacheKey := None))) \<and>
   (snd (withCache now later cacheKey ttl fetchFn cache) cacheKey = Some entry
      \<and> cache cacheKey \<noteq> Some entry \<longrightarrow>
      fst (cache_get now cacheKey cache) = None \<and>
      fetchFn = Inr (ce_data entry) \<and> ce_timestamp entry = later \<and> ce_ttl entry = ttl)"
proof (intro conjI impI)
  assume "fst (cache_get now cacheKey cache) = None"
  then show "withCache now later cacheKey ttl (Inl e) cache = (Inl e, cache(cacheKey := None))"
    by (simp add: withCache_miss)
next
  assume a: "snd (withCache now later cacheKey ttl fetchFn cache) cacheKey = Some entry
      \<and> cache cacheKey \<noteq> Some entry"
  show miss: "fst (cache_get now cacheKey cache) = None"
  proof (cases "fst (cache_get now cacheKey cache)")
    case (Some v)
    with a show ?thesis by (simp add: withCache_hit)
  qed simp
  from a miss show "fetchFn = Inr (ce_data entry)"
    by (cases fetchFn) (auto simp: withCache_miss)
  from a miss show "ce_timestamp entry = later"
    by (cases fetchFn) (auto simp: withCache_miss)
  from a miss show "ce_ttl entry = ttl"
    by (cases fetchFn) (auto simp: withCache_miss)
qed

theorem withCache_rejection_witness:
  "fst (cache_get 2000 ''k'' expired_cache) = None \<and>
   withCache 2000 2001 ''k'' 1 (Inl OtherError) expired_cache
     = (Inl OtherError, expired_cache(''k'' := None)) \<and>
   snd (withCache 2000 2001 ''k'' 1 (Inr 9) expired_cache) ''k''
     = Some \<lparr>ce_data = 9, ce_timestamp = 2001, ce_ttl = 1\<rparr> \<and>
   expired_cache ''k'' \<noteq> Some \<lparr>ce_data = 9, ce_timestamp = 2001, ce_ttl = 1\<rparr>"
proof -
  have miss: "fst (cache_get 2000 ''k'' expired_cache) = None"
    by (simp add: cache_get_def expired_cache_def)
  have stored: "snd (withCache 2000 2001 ''k'' 1 (Inr 9) expired_cache) ''k''
      = Some \<lparr>ce_data = 9, ce_timestamp = 2001, ce_ttl = 1\<rparr>"
    by (simp add: withCache_def cache_get_def cache_set_def expired_cache_def)
  have old: "expired_cache ''k'' \<noteq> Some \<lparr>ce_data = 9, ce_timestamp = 2001, ce_ttl = 1\<rparr>"
    by (simp add: expired_cache_def)
  from miss stored old
    withCache_rejection [of 2000 "''k''" expired_cache 2001 1 OtherError "Inr 9"
      "\<lparr>ce_data = 9, ce_timestamp = 2001, ce_ttl = 1\<rparr>"]
  show ?thesis by blast
qed

section \<open>Properties of the city health index\<close>

lemma calculateCityHealthIndex_deductions:
  "calculateCityHealthIndex aqi c t =
     max (100 - aqiDeduction aqi - crimeDeduction c - temperatureDeduction t) 0"
  by (simp add: calculateCityHealthIndex_def aqiDeduction_def crimeDeduction_def
      temperatureDeduction_def Let_def)

lemma aqiDeduction_mono: "a \<le> a' \<Longrightarrow> aqiDeduction a \<le> aqiDeduction a'"
  by (simp add: aqiDeduction_def)

lemma crimeDeduction_mono: "c \<le> c' \<Longrightarrow> crimeDeduction c \<le> crimeDeduction c'"
  by (simp add: crimeDeduction_def)

lemma temperatureDeduction_mono:
  "\<bar>t - 25\<bar> \<le> \<bar>t' - 25\<bar> \<Longrightarrow> temperatureDeduction t \<le> temperatureDeduction t'"
  unfolding temperatureDeduction_def by (simp add: abs_if split: if_splits)

lemma deductions_bounds:
  "0 \<le> aqiDeduction a" "0 \<le> crimeDeduction c" "0 \<le> temperatureDeduction t"
  by (simp_all add: aqiDeduction_def crimeDeduction_def temperatureDeduction_def)

text \<open>
  C3: the city health index lies between 0 and 100, and it does not increase when the
  AQI rises, when the crime rate rises, or when the temperature moves away from 25
  degrees, the middle of the band between the cold thresholds (15, 10) and the hot ones
  (35, 40).
\<close>

theorem calculateCityHealthIndex_monotone:
  "0 \<le> calculateCityHealthIndex aqi crimeRate temperature \<and>
   calculateCityHealthIndex aqi crimeRate temperature \<le> 100 \<and>
   (aqi \<le> aqi' \<and> crimeRate \<le> crimeRate' \<and> \<bar>temperature - 25\<bar> \<le> \<bar>temperature' - 25\<bar> \<longrightarrow>
      calculateCityHealthIndex aqi' crimeRate' temperature'
        \<le> calculateCityHealthIndex aqi crimeRate temperature)"
proof (intro conjI impI)
  show "0 \<le> calculateCityHealthIndex aqi crimeRate temperature"
    by (simp add: calculateCityHealthIndex_deductions)
  show "calculateCityHealthIndex aqi crimeRate temperature \<le> 100"
    using deductions_bounds(1) [of aqi] deductions_bounds(2) [of crimeRate]
      deductions_bounds(3) [of temperature]
    by (simp add: calculateCityHealthIndex_deductions)
  assume a: "aqi \<le> aqi' \<and> crimeRate \<le> crimeRate' \<and> \<bar>temperature - 25\<bar> \<le> \<bar>temperature' - 25\<bar>"
  then show "calculateCityHealthIndex aqi' crimeRate' temperature'
        \<le> calculateCityHealthIndex aqi crimeRate temperature"
    using aqiDeduction_mono [of aqi aqi'] crimeDeduction_mono [of crimeRate crimeRate']
      temperatureDeduction_mono [of temperature temperature']
    by (simp add: calculateCityHealthIndex_deductions)
qed

theorem calculateCityHealthIndex_monotone_witness:
  "((120::real) \<le> 210 \<and> (200::real) \<le> 600 \<and> \<bar>(30::real) - 25\<bar> \<le> \<bar>(42::real) - 25\<bar>) \<and>
   calculateCityHealthIndex 210 600 42 \<le> calculateCityHealthIndex 120 200 30 \<and>
   0 \<le> calculateCityHealthIndex 120 200 30 \<and> calculateCityHealthIndex 120 200 30 \<le> 100"
  using calculateCityHealthIndex_monotone [of 120 200 30 210 600 42] by simp

section \<open>Properties of the data collection\<close>

lemma finalOutcome_isl: "isl (tryAttempt a) \<Longrightarrow> isl (finalOutcome a)"
  by (auto simp: finalOutcome_def split: sum.splits)

lemma alwaysFails_fetchWithRetry:
  assumes "alwaysFails config net"
  shows "isl (fst (fetchWithRetry config net))"
proof -
  have "lastAttempt config net \<in> set [0..<Suc (retryAttempts config)]"
    using lastAttempt_le [of config net] by auto
  with assms have "isl (tryAttempt (net (lastAttempt config net)))"
    unfolding alwaysFails_def list_all_iff by blast
  then show ?thesis
    by (simp add: fetchWithRetry_run finalOutcome_isl)
qed

lemma fetchWithRetry_first_ok:
  "tryAttempt (net 0) = Inr d \<Longrightarrow> fst (fetchWithRetry config net) = Inr d"
  unfolding fetchWithRetry_def by (subst fetchWithRetry_from.simps) simp

lemma withCache_empty:
  "withCache now later key ttl fetchFn Map.empty =
     (case fetchFn of
        Inr d \<Rightarrow> (Inr d, [key \<mapsto> \<lparr>ce_data = d, ce_timestamp = later, ce_ttl = ttl\<rparr>])
      | Inl e \<Rightarrow> (Inl e, Map.empty))"
  by (simp add: withCache_def cache_get_def cache_set_def split: sum.splits)

lemma climateProducer_fails:
  "alwaysFails openMeteo_config (w_openMeteo w) \<Longrightarrow> isl (climateProducer w city)"
  using alwaysFails_fetchWithRetry [of openMeteo_config "w_openMeteo w"]
  by (auto simp: climateProducer_def split: option.splits sum.splits)

lemma deathRateProducer_fails:
  "alwaysFails worldBank_config (w_worldBank w) \<Longrightarrow> isl (deathRateProducer w city age)"
  using alwaysFails_fetchWithRetry [of worldBank_config "w_worldBank w"]
  by (auto simp: deathRateProducer_def split: sum.splits)

lemma alertsProducer_fails:
  "alwaysFails newsApi_config (w_newsApi w) \<Longrightarrow> isl (alertsProducer w city)"
  using alwaysFails_fetchWithRetry [of newsApi_config "w_newsApi w"]
  by (auto simp: alertsProducer_def split: sum.splits)

lemma fetchClimateData_fallback:
  "alwaysFails openMeteo_config (w_openMeteo w) \<Longrightarrow>
     fetchClimateData w Map.empty city = (climateFallback w city, Map.empty)"
  using climateProducer_fails [of w city]
  by (auto simp: fetchClimateData_def climateAttempt_def withCache_empty isl_def)

lemma fetchDeathRateData_fallback:
  "alwaysFails worldBank_config (w_worldBank w) \<Longrightarrow>
     fetchDeathRateData w str Map.empty city age = (deathRateFallback city age, Map.empty)"
  using deathRateProducer_fails [of w city age]
  by (auto simp: fetchDeathRateData_def deathRateAttempt_def withCache_empty isl_def)

lemma fetchHealthAlerts_fallback:
  "alwaysFails newsApi_config (w_newsApi w) \<Longrightarrow>
     fetchHealthAlerts w Map.empty city = (generateFallbackAlerts w city, Map.empty)"
  using alertsProducer_fails [of w city]
  by (auto simp: fetchHealthAlerts_def alertsAttempt_def withCache_empty isl_def)

lemma occupationProducer_live:
  "\<exists>d. occupationProducer occupation = Inr d \<and> od_confidence d = ConfHigh
      \<and> od_source d = ''ILO/OSHA Statistics''"
  by (simp add: occupationProducer_def split: prod.splits)

lemma crimeProducer_live:
  "\<exists>d. crimeProducer city = Inr d \<and> cr_source d = ''NCRB (National Crime Records Bureau)''"
  by (simp add: crimeProducer_def split: prod.splits)

lemma fetchOccupationDeathRate_live:
  "\<exists>d c. fetchOccupationDeathRate w Map.empty occupation = (d, c) \<and> od_confidence d = ConfHigh
      \<and> od_source d = ''ILO/OSHA Statistics''"
  using occupationProducer_live [of occupation]
  by (auto simp: fetchOccupationDeathRate_def occupationAttempt_def withCache_empty)

lemma fetchCrimeData_live:
  "\<exists>d c. fetchCrimeData w Map.empty city = (d, c)
      \<and> cr_source d = ''NCRB (National Crime Records Bureau)''"
  using crimeProducer_live [of city]
  by (auto simp: fetchCrimeData_def crimeAttempt_def withCache_empty)

lemma str_includes_fallback: "\<not> str_includes ''Fallback estimate'' ''Real-time''"
  by simp

lemma dataQualityOf_all_fail:
  assumes "od_confidence od = ConfHigh" "od_source od = ''ILO/OSHA Statistics''"
    "cr_source cr = ''NCRB (National Crime Records Bureau)''"
  shows "dataQualityOf (climateFallback w city) (deathRateFallback city age) od cr
     = \<lparr>dq_overall = Fair, dq_sources = 4, dq_realTimeDataPercentage = 25\<rparr>"
  using assms
  by (simp add: dataQualityOf_def realTimeCount_def climateFallback_def deathRateFallback_def
      Let_def Math_round_def)


lemma fetchAllRealTimeData_all_fail:
  assumes "all_sources_fail w"
  shows "\<exists>rt cs'. fetchAllRealTimeData w str empty_caches city occupation age = (rt, cs')
     \<and> rt_dataQuality rt = \<lparr>dq_overall = Fair, dq_sources = 4, dq_realTimeDataPercentage = 25\<rparr>
     \<and> rt_climate rt = climateFallback w city
     \<and> rt_deathRate rt = deathRateFallback city age
     \<and> rt_healthAlerts rt = generateFallbackAlerts w city"
proof -
  from assms have f: "alwaysFails openMeteo_config (w_openMeteo w)"
    "alwaysFails worldBank_config (w_worldBank w)" "alwaysFails newsApi_config (w_newsApi w)"
    by (simp_all add: all_sources_fail_def)
  obtain od c3 where od: "fetchOccupationDeathRate w Map.empty occupation = (od, c3)"
    "od_confidence od = ConfHigh" "od_source od = ''ILO/OSHA Statistics''"
    using fetchOccupationDeathRate_live [of w occupation] by blast
  obtain cr c4 where cr: "fetchCrimeData w Map.empty city = (cr, c4)"
    "cr_source cr = ''NCRB (National Crime Records Bureau)''"
    using fetchCrimeData_live [of w city] by blast
  show ?thesis
    unfolding fetchAllRealTimeData_def empty_caches_def
    by (simp add: fetchClimateData_fallback [OF f(1)] fetchDeathRateData_fallback [OF f(2)]
        fetchHealthAlerts_fallback [OF f(3)] od(1) cr(1)
        dataQualityOf_all_fail [OF od(2) od(3) cr(2)])
qed

lemma collectAllData_all_fail:
  assumes "all_sources_fail w" and "getOccupationHazard occupation = Some hazard"
  shows "\<exists>cd. fst (collectAllData w str getCityStatistics getOccupationHazard empty_caches
            city occupation age) = Inr cd
     \<and> cd_dataQuality cd
         = Some \<lparr>dq_overall = Fair, dq_sources = 4, dq_realTimeDataPercentage = 25\<rparr>
     \<and> cd_occupationHazard cd = hazard
     \<and> cd_cityStats cd = getCityStatistics city
     \<and> env_aqi (cd_environmental cd) = 150
     \<and> env_temperature (cd_environmental cd) = 30
     \<and> st_deathRate (cd_statistical cd) = 7.3
     \<and> cd_healthAlerts cd = Some (generateFallbackAlerts w city)
     \<and> cd_realTimeData cd \<noteq> None"
proof -
  obtain rt cs' where rt:
    "fetchAllRealTimeData w str empty_caches city occupation age = (rt, cs')"
    "rt_dataQuality rt = \<lparr>dq_overall = Fair, dq_sources = 4, dq_realTimeDataPercentage = 25\<rparr>"
    "rt_climate rt = climateFallback w city"
    "rt_deathRate rt = deathRateFallback city age"
    "rt_healthAlerts rt = generateFallbackAlerts w city"
    using fetchAllRealTimeData_all_fail [OF assms(1), of str city occupation age] by blast
  show ?thesis
    unfolding collectAllData_def
    by (simp add: rt assms(2) Let_def climateFallback_def deathRateFallback_def)
qed

lemma dead_world_fails: "all_sources_fail dead_world"
  by (simp add: all_sources_fail_def alwaysFails_def dead_world_def openMeteo_config_def
      aqicn_config_def openWeatherMap_config_def worldBank_config_def newsApi_config_def
      upt_rec)

lemma collectAllData_returns:
  assumes "getOccupationHazard occupation = Some hazard"
  shows "\<exists>cd. fst (collectAllData w str getCityStatistics getOccupationHazard cs
            city occupation age) = Inr cd
     \<and> cd_occupationHazard cd = hazard
     \<and> cd_cityStats cd = getCityStatistics city
     \<and> cd_dataQuality cd \<noteq> None
     \<and> cd_realTimeData cd \<noteq> None"
  unfolding collectAllData_def
  by (simp add: assms Let_def split: prod.splits)

lemma dead_world_live:
  "liveFetchers dead_world sample_str empty_caches ''Delhi'' ''Factory Worker'' 65
     = [False, False, True, True, False]"
proof -
  from dead_world_fails have f: "alwaysFails openMeteo_config (w_openMeteo dead_world)"
    "alwaysFails worldBank_config (w_worldBank dead_world)"
    "alwaysFails newsApi_config (w_newsApi dead_world)"
    by (simp_all add: all_sources_fail_def)
  show ?thesis
    using climateProducer_fails [OF f(1), of "''Delhi''"]
      deathRateProducer_fails [OF f(2), of "''Delhi''" 65]
      alertsProducer_fails [OF f(3), of "''Delhi''"]
      occupationProducer_live [of "''Factory Worker''"] crimeProducer_live [of "''Delhi''"]
    by (auto simp: liveFetchers_def empty_caches_def climateAttempt_def deathRateAttempt_def
        occupationAttempt_def crimeAttempt_def alertsAttempt_def withCache_empty isl_def)
qed

text \<open>
  The overall grade is not poor when every external source fails: the occupation and
  crime fetchers read static tables and do not take their fallback paths, and the
  occupation death rate, under confidence high, counts as one live indicator of four.
\<close>

theorem collectAllData_poor_counterexample:
  "all_sources_fail dead_world \<and>
   liveFetchers dead_world sample_str empty_caches ''Delhi'' ''Factory Worker'' 65
     = [False, False, True, True, False] \<and>
   overallOf (fst (collectAllData dead_world sample_str sample_getCityStatistics
     sample_getOccupationHazard empty_caches ''Delhi'' ''Factory Worker'' 65)) = Some Fair \<and>
   Some Fair \<noteq> Some Poor"
proof -
  have h: "sample_getOccupationHazard ''Factory Worker''
      = Some \<lparr>oh_hazardLevel = High, oh_deathRate = 12.3, oh_riskScore = 75,
          oh_preventiveMeasures = []\<rparr>"
    by (simp add: sample_getOccupationHazard_def)
  from collectAllData_all_fail [where w = dead_world
      and getOccupationHazard = sample_getOccupationHazard and occupation = "''Factory Worker''"
      and str = sample_str and getCityStatistics = sample_getCityStatistics
      and city = "''Delhi''" and age = 65, OF dead_world_fails h]
  show ?thesis
    by (auto simp: overallOf_def dead_world_fails dead_world_live)
qed

text \<open>
  C2 (amended): when every external source fails, then for a city and an occupation that
  the static tables know \<open>collectAllData\<close> does not throw, whatever the cache holds:
  it returns a result with its city statistics, occupation hazard, real-time data and
  data quality populated. When moreover nothing is cached, the climate, death rate and
  alerts are the fallback values and the data quality has overall grade fair, 25 per
  cent real-time data and four sources.
\<close>

theorem collectAllData_all_sources_fail:
  assumes "all_sources_fail w"
    and "getCityStatistics city = Some stats"
    and "getOccupationHazard occupation = Some hazard"
  shows "(\<exists>cd. fst (collectAllData w str getCityStatistics getOccupationHazard cs
            city occupation age) = Inr cd
     \<and> cd_occupationHazard cd = hazard
     \<and> cd_cityStats cd = Some stats
     \<and> cd_dataQuality cd \<noteq> None
     \<and> cd_realTimeData cd \<noteq> None) \<and>
   (\<exists>cd. fst (collectAllData w str getCityStatistics getOccupationHazard empty_caches
            city occupation age) = Inr cd
     \<and> cd_dataQuality cd
         = Some \<lparr>dq_overall = Fair, dq_sources = 4, dq_realTimeDataPercentage = 25\<rparr>
     \<and> env_aqi (cd_environmental cd) = 150
     \<and> env_temperature (cd_environmental cd) = 30
     \<and> st_deathRate (cd_statistical cd) = 7.3
     \<and> cd_healthAlerts cd = Some (generateFallbackAlerts w city))"
proof
  show "\<exists>cd. fst (collectAllData w str getCityStatistics getOccupationHazard cs
            city occupation age) = Inr cd
     \<and> cd_occupationHazard cd = hazard
     \<and> cd_cityStats cd = Some stats
     \<and> cd_dataQuality cd \<noteq> None
     \<and> cd_realTimeData cd \<noteq> None"
    using collectAllData_returns [where getOccupationHazard = getOccupationHazard
        and occupation = occupation and w = w and str = str
        and getCityStatistics = getCityStatistics and cs = cs and city = city and age = age,
        OF assms(3)] assms(2)
    by simp
  show "\<exists>cd. fst (collectAllData w str getCityStatistics getOccupationHazard empty_caches
            city occupation age) = Inr cd
     \<and> cd_dataQuality cd
         = Some \<lparr>dq_overall = Fair, dq_sources = 4, dq_realTimeDataPercentage = 25\<rparr>
     \<and> env_aqi (cd_environmental cd) = 150
     \<and> env_temperature (cd_environmental cd) = 30
     \<and> st_deathRate (cd_statistical cd) = 7.3
     \<and> cd_healthAlerts cd = Some (generateFallbackAlerts w city)"
    using collectAllData_all_fail [where w = w and getOccupationHazard = getOccupationHazard
      and occupation = occupation and str = str and getCityStatistics = getCityStatistics
      and city = city and age = age, OF assms(1) assms(3)]
    by blast
qed

theorem collectAllData_all_sources_fail_witness:
  "all_sources_fail dead_world \<and>
   sample_getCityStatistics ''Delhi'' = Some \<lparr>cs_crimeRate = 1586.1\<rparr> \<and>
   sample_getOccupationHazard ''Factory Worker''
      = Some \<lparr>oh_hazardLevel = High, oh_deathRate = 12.3, oh_riskScore = 75,
          oh_preventiveMeasures = []\<rparr> \<and>
   (\<exists>cd. fst (collectAllData dead_world sample_str sample_getCityStatistics
            sample_getOccupationHazard empty_caches ''Delhi'' ''Factory Worker'' 65) = Inr cd
     \<and> cd_dataQuality cd
         = Some \<lparr>dq_overall = Fair, dq_sources = 4, dq_realTimeDataPercentage = 25\<rparr>
     \<and> env_aqi (cd_environmental cd) = 150)"
proof -
  have c: "sample_getCityStatistics ''Delhi'' = Some \<lparr>cs_crimeRate = 1586.1\<rparr>"
    by (simp add: sample_getCityStatistics_def)
  have h: "sample_getOccupationHazard ''Factory Worker''
      = Some \<lparr>oh_hazardLevel = High, oh_deathRate = 12.3, oh_riskScore = 75,
          oh_preventiveMeasures = []\<rparr>"
    by (simp add: sample_getOccupationHazard_def)
  from collectAllData_all_sources_fail [where w = dead_world
      and getCityStatistics = sample_getCityStatistics and city = "''Delhi''"
      and getOccupationHazard = sample_getOccupationHazard and occupation = "''Factory Worker''"
      and str = sample_str and age = 65 and cs = empty_caches, OF dead_world_fails c h]
    dead_world_fails c h
  show ?thesis by blast
qed

section \<open>Properties of the data quality\<close>

lemma realTimeCount_indicators:
  "realTimeCount climate deathRate occupationDeathRate =
     of_bool (str_includes (src_weather (cl_sources climate)) ''Real-time'')
     + of_bool (str_includes (src_aqi (cl_sources climate)) ''Real-time'')
     + of_bool (dr_confidence deathRate = ConfHigh)
     + of_bool (od_confidence occupationDeathRate = ConfHigh)"
  by (simp add: realTimeCount_def)

lemma realTimeCount_le_4: "realTimeCount climate deathRate occupationDeathRate \<le> 4"
  by (simp add: realTimeCount_indicators of_bool_def)

lemma dataQualityOf_grade:
  fixes climate deathRate occupationDeathRate crime
  defines "n \<equiv> realTimeCount climate deathRate occupationDeathRate"
    and "q \<equiv> dataQualityOf climate deathRate occupationDeathRate crime"
  shows "(dq_overall q = Excellent \<longleftrightarrow> 3 \<le> n) \<and> (dq_overall q = Good \<longleftrightarrow> n = 2) \<and>
    (dq_overall q = Fair \<longleftrightarrow> n = 1) \<and> (dq_overall q = Poor \<longleftrightarrow> n = 0) \<and>
    dq_realTimeDataPercentage q = 25 * int n \<and>
    dq_sources q = card {src_weather (cl_sources climate), src_aqi (cl_sources climate),
       dr_source deathRate, od_source occupationDeathRate, cr_source crime}"
proof -
  have pct: "real n / 4 * 100 = of_int (25 * int n)" by simp
  have src: "dq_sources q = card (set [src_weather (cl_sources climate),
       src_aqi (cl_sources climate), dr_source deathRate, od_source occupationDeathRate,
       cr_source crime])"
    unfolding q_def dataQualityOf_def Let_def by (simp only: DataQuality.simps card_set)
  have "Math_round (real n / 4 * 100) = Math_round (of_int (25 * int n))"
    by (rule arg_cong [of _ _ Math_round]) (rule pct)
  then have "Math_round (real n / 4 * 100) = 25 * int n"
    by (simp only: Math_round_of_int)
  then have rnd: "dq_realTimeDataPercentage q = 25 * int n"
    unfolding q_def n_def dataQualityOf_def Let_def by (simp only: DataQuality.simps)
  have ov: "dq_overall q = (if 3 \<le> n then Excellent else if 2 \<le> n then Good
       else if 1 \<le> n then Fair else Poor)"
    unfolding q_def n_def dataQualityOf_def Let_def by simp
  from ov rnd src show ?thesis by auto
qed


lemma fetchAllRealTimeData_quality:
  "rt_dataQuality (fst (fetchAllRealTimeData w str cs city occupation age)) =
     dataQualityOf (rt_climate (fst (fetchAllRealTimeData w str cs city occupation age)))
       (rt_deathRate (fst (fetchAllRealTimeData w str cs city occupation age)))
       (rt_occupationDeathRate (fst (fetchAllRealTimeData w str cs city occupation age)))
       (rt_crime (fst (fetchAllRealTimeData w str cs city occupation age)))"
  by (simp add: fetchAllRealTimeData_def Let_def split: prod.splits)

text \<open>
  C8 (amended): the overall grade is computed from four indicators, not from the five
  fetchers: the weather label of the climate data contains ``Real-time'', its AQI label
  contains ``Real-time'', the death rate has confidence high, the occupation death rate
  has confidence high. With \<open>n\<close> of the four holding, the percentage is \<open>25 n\<close> and
  the grade is excellent from three, good at two, fair at one, poor at none. The source
  count is the number of distinct labels among the two of the climate data and those of
  the death rate, the occupation death rate and the crime data.
\<close>

theorem fetchAllRealTimeData_dataQuality:
  fixes w str cs city occupation age
  defines "rt \<equiv> fst (fetchAllRealTimeData w str cs city occupation age)"
  defines "n \<equiv>
     (of_bool (str_includes (src_weather (cl_sources (rt_climate rt))) ''Real-time'')
      + of_bool (str_includes (src_aqi (cl_sources (rt_climate rt))) ''Real-time'')
      + of_bool (dr_confidence (rt_deathRate rt) = ConfHigh)
      + of_bool (od_confidence (rt_occupationDeathRate rt) = ConfHigh) :: nat)"
  shows "(dq_overall (rt_dataQuality rt) = Excellent \<longleftrightarrow> 3 \<le> n) \<and>
    (dq_overall (rt_dataQuality rt) = Good \<longleftrightarrow> n = 2) \<and>
    (dq_overall (rt_dataQuality rt) = Fair \<longleftrightarrow> n = 1) \<and>
    (dq_overall (rt_dataQuality rt) = Poor \<longleftrightarrow> n = 0) \<and>
    dq_realTimeDataPercentage (rt_dataQuality rt) = 25 * int n \<and>
    dq_sources (rt_dataQuality rt) =
      card {src_weather (cl_sources (rt_climate rt)), src_aqi (cl_sources (rt_climate rt)),
        dr_source (rt_deathRate rt), od_source (rt_occupationDeathRate rt),
        cr_source (rt_crime rt)}"
proof -
  have n: "n = realTimeCount (rt_climate rt) (rt_deathRate rt) (rt_occupationDeathRate rt)"
    unfolding n_def by (simp only: realTimeCount_indicators)
  have q: "rt_dataQuality rt = dataQualityOf (rt_climate rt) (rt_deathRate rt)
      (rt_occupationDeathRate rt) (rt_crime rt)"
    unfolding rt_def by (rule fetchAllRealTimeData_quality)
  show ?thesis
    unfolding n q by (rule dataQualityOf_grade)
qed

lemma climate_down_openMeteo:
  "alwaysFails openMeteo_config (w_openMeteo climate_down_world)"
  by (simp add: alwaysFails_def climate_down_world_def openMeteo_config_def upt_rec)

lemma climate_down_climate:
  "climateAttempt climate_down_world Map.empty ''Delhi'' = (climateProducer climate_down_world ''Delhi'', Map.empty)
   \<and> isl (climateProducer climate_down_world ''Delhi'')"
  using climateProducer_fails [OF climate_down_openMeteo, of "''Delhi''"]
  by (auto simp: climateAttempt_def withCache_empty isl_def)

lemma climate_down_deathRate:
  "\<exists>d. deathRateProducer climate_down_world ''Delhi'' 65 = Inr d \<and> dr_confidence d = ConfHigh"
proof -
  have "fst (fetchWithRetry worldBank_config (w_worldBank climate_down_world))
      = Inr (Some [None, Some 7.2])"
    by (rule fetchWithRetry_first_ok) (simp add: climate_down_world_def)
  then show ?thesis
    by (simp add: deathRateProducer_def Let_def)
qed

lemma climate_down_alerts:
  "\<exists>d. alertsProducer climate_down_world ''Delhi'' = Inr d"
proof -
  have "\<exists>as. fst (fetchWithRetry newsApi_config (w_newsApi climate_down_world)) = Inr as"
    by (rule exI, rule fetchWithRetry_first_ok) (simp add: climate_down_world_def)
  then show ?thesis
    by (auto simp: alertsProducer_def Let_def)
qed

lemma climate_down_live:
  "liveFetchers climate_down_world sample_str empty_caches ''Delhi'' ''Factory Worker'' 65
     = [False, True, True, True, True]"
proof -
  have k: "isAPIKeyConfigured (w_newsApiKey climate_down_world)"
    by (simp add: isAPIKeyConfigured_def climate_down_world_def)
  show ?thesis
    using climate_down_climate climate_down_deathRate climate_down_alerts k
      occupationProducer_live [of "''Factory Worker''"] crimeProducer_live [of "''Delhi''"]
    by (auto simp: liveFetchers_def empty_caches_def deathRateAttempt_def
        occupationAttempt_def crimeAttempt_def alertsAttempt_def withCache_empty)
qed

lemma climate_down_count:
  "realTimeCount
     (rt_climate (fst (fetchAllRealTimeData climate_down_world sample_str empty_caches
        ''Delhi'' ''Factory Worker'' 65)))
     (rt_deathRate (fst (fetchAllRealTimeData climate_down_world sample_str empty_caches
        ''Delhi'' ''Factory Worker'' 65)))
     (rt_occupationDeathRate (fst (fetchAllRealTimeData climate_down_world sample_str
        empty_caches ''Delhi'' ''Factory Worker'' 65))) = 2"
proof -
  obtain d where d: "deathRateProducer climate_down_world ''Delhi'' 65 = Inr d"
    "dr_confidence d = ConfHigh"
    using climate_down_deathRate by blast
  obtain od c3 where od:
    "fetchOccupationDeathRate climate_down_world Map.empty ''Factory Worker'' = (od, c3)"
    "od_confidence od = ConfHigh"
    using fetchOccupationDeathRate_live [of climate_down_world "''Factory Worker''"] by blast
  have "\<exists>c2. fetchDeathRateData climate_down_world sample_str Map.empty ''Delhi'' 65 = (d, c2)"
    by (simp add: fetchDeathRateData_def deathRateAttempt_def withCache_empty d(1))
  then obtain c2 where
    dr: "fetchDeathRateData climate_down_world sample_str Map.empty ''Delhi'' 65 = (d, c2)"
    by blast
  show ?thesis
    using dr d(2) od
    by (simp add: fetchAllRealTimeData_def empty_caches_def Let_def realTimeCount_indicators
        fetchClimateData_fallback [OF climate_down_openMeteo] climateFallback_def
        split: prod.splits)
qed

text \<open>
  The grade is not the grade of the fraction of fetchers that returned live data: with
  Open-Meteo down and every other fetcher live, four fetchers of five (three of the four
  that carry a label) returned live data, a fraction graded excellent, and the grade
  computed is good.
\<close>

theorem dataQuality_fraction_counterexample:
  "liveFetchers climate_down_world sample_str empty_caches ''Delhi'' ''Factory Worker'' 65
     = [False, True, True, True, True] \<and>
   gradeOfFraction 4 5 = Excellent \<and> gradeOfFraction 3 4 = Excellent \<and>
   dq_overall (rt_dataQuality (fst (fetchAllRealTimeData climate_down_world sample_str
     empty_caches ''Delhi'' ''Factory Worker'' 65))) = Good"
proof -
  have g: "gradeOfFraction 4 5 = Excellent" "gradeOfFraction 3 4 = Excellent"
    by (simp_all add: gradeOfFraction_def)
  have "dq_overall (rt_dataQuality (fst (fetchAllRealTimeData climate_down_world sample_str
     empty_caches ''Delhi'' ''Factory Worker'' 65))) = Good"
    unfolding fetchAllRealTimeData_quality
    using dataQualityOf_grade climate_down_count by simp
  with g climate_down_live show ?thesis by simp
qed

end
